theory Spec2Isabelle
  imports Complex_Main
begin

section \<open>The robot controller of Robot.py\<close>

text \<open>
  A shallow embedding of the classes \<open>LightSensor\<close> and \<open>Robot\<close> of \<open>src/Robot.py\<close>.

  Numbers: the Python code mixes integers and floats (\<open>0.25\<close>, \<open>1.2\<close>, \<open>51.9\<close>); every
  number is a \<open>real\<close> here, so rounding of floats is not part of the model.

  Hardware: the motors, the two colour sensors, the gyro and the stopwatch are outside
  the program. What they answer is an \<open>env\<close>: for each device, the value its k-th read
  returns. What the program did to them is a \<open>world\<close>: how many reads each device has
  served so far, and the list of commands sent, in order.

  Loops: every \<open>while\<close> of the source polls hardware and may run for ever, so each
  loop function takes fuel, the number of times its condition may be evaluated, and
  answers \<open>StillRunning\<close> when the fuel is used up before the condition turns false.
\<close>

subsection \<open>Devices, commands and the outside world\<close>

datatype port = Port_A | Port_B | Port_C | Port_D | Port_S1 | Port_S2 | Port_S3 | Port_S4

datatype Stop = COAST | BRAKE | HOLD

datatype command =
    Run port real
  | StopCmd port Stop
  | ResetAngle port real

fun cmd_port :: "command \<Rightarrow> port" where
  "cmd_port (Run p v) = p"
| "cmd_port (StopCmd p b) = p"
| "cmd_port (ResetAngle p v) = p"

fun is_run :: "command \<Rightarrow> bool" where
  "is_run (Run p v) = True"
| "is_run (StopCmd p b) = False"
| "is_run (ResetAngle p v) = False"

text \<open>The commands one device has received: all that its state can depend on.\<close>

definition cmds_of :: "port \<Rightarrow> command list \<Rightarrow> command list" where
  "cmds_of p cs = filter (\<lambda>c. cmd_port c = p) cs"

record sensorpoints =
  leftLow :: real
  rightLow :: real
  leftHigh :: real
  rightHigh :: real

record env =
  gyro_readings :: "nat \<Rightarrow> real"
  clock_readings :: "nat \<Rightarrow> real"
  angle_readings :: "port \<Rightarrow> nat \<Rightarrow> real"
  rgb_readings :: "port \<Rightarrow> nat \<Rightarrow> real \<times> real \<times> real"

record world =
  gyro_n :: nat
  clock_n :: nat
  angle_n :: "port \<Rightarrow> nat"
  rgb_n :: "port \<Rightarrow> nat"
  cmd_log :: "command list"
  sensorpoints_file :: "sensorpoints option"

datatype status = Finished | ZeroDivisionError | StillRunning

text \<open>\<open>gyroSensor.angle()\<close>, \<open>timer.time()\<close>, \<open>motor.angle()\<close>: one read each.\<close>

definition gyro_angle :: "env \<Rightarrow> world \<Rightarrow> real \<times> world" where
  "gyro_angle e w = (gyro_readings e (gyro_n w), w\<lparr>gyro_n := Suc (gyro_n w)\<rparr>)"

definition timer_time :: "env \<Rightarrow> world \<Rightarrow> real \<times> world" where
  "timer_time e w = (clock_readings e (clock_n w), w\<lparr>clock_n := Suc (clock_n w)\<rparr>)"

definition motor_angle :: "env \<Rightarrow> port \<Rightarrow> world \<Rightarrow> real \<times> world" where
  "motor_angle e p w =
     (angle_readings e p (angle_n w p), w\<lparr>angle_n := (angle_n w)(p := Suc (angle_n w p))\<rparr>)"

definition send :: "command \<Rightarrow> world \<Rightarrow> world" where
  "send c w = w\<lparr>cmd_log := cmd_log w @ [c]\<rparr>"

text \<open>\<open>math.copysign\<close> on reals (a real has no negative zero).\<close>

definition copysign :: "real \<Rightarrow> real \<Rightarrow> real" where
  "copysign x y = (if y < 0 then - \<bar>x\<bar> else \<bar>x\<bar>)"

subsection \<open>class LightSensor\<close>

record LightSensor =
  sensor_port :: port
  black :: real
  white :: real
  line :: real

definition LightSensor_init :: "port \<Rightarrow> real \<Rightarrow> real \<Rightarrow> LightSensor" where
  "LightSensor_init p low high =
     \<lparr>sensor_port = p,
      black = low + (high - low) * 0.25,
      white = low + (high - low) * 0.8,
      line = low + (high - low) * 0.5\<rparr>"

text \<open>The value the k-th \<open>light()\<close> call on a port returns: \<open>sum(self.rgb())\<close>.\<close>

definition light_at :: "env \<Rightarrow> port \<Rightarrow> nat \<Rightarrow> real" where
  "light_at e p k = (case rgb_readings e p k of (r, g, b) \<Rightarrow> r + g + b)"

definition light :: "env \<Rightarrow> LightSensor \<Rightarrow> world \<Rightarrow> real \<times> world" where
  "light e s w =
     (light_at e (sensor_port s) (rgb_n w (sensor_port s)),
      w\<lparr>rgb_n := (rgb_n w)(sensor_port s := Suc (rgb_n w (sensor_port s)))\<rparr>)"

definition isWhite :: "env \<Rightarrow> LightSensor \<Rightarrow> world \<Rightarrow> bool \<times> world" where
  "isWhite e s w = (case light e s w of (l, w') \<Rightarrow> (if l \<ge> white s then True else False, w'))"

definition isBlack :: "env \<Rightarrow> LightSensor \<Rightarrow> world \<Rightarrow> bool \<times> world" where
  "isBlack e s w = (case light e s w of (l, w') \<Rightarrow> (if l \<le> black s then True else False, w'))"

fun waitForWhite :: "nat \<Rightarrow> env \<Rightarrow> LightSensor \<Rightarrow> world \<Rightarrow> status \<times> world" where
  "waitForWhite 0 e s w = (StillRunning, w)"
| "waitForWhite (Suc fuel) e s w =
     (case isWhite e s w of (b, w') \<Rightarrow>
        if \<not> b then waitForWhite fuel e s w' else (Finished, w'))"

fun waitForBlack :: "nat \<Rightarrow> env \<Rightarrow> LightSensor \<Rightarrow> world \<Rightarrow> status \<times> world" where
  "waitForBlack 0 e s w = (StillRunning, w)"
| "waitForBlack (Suc fuel) e s w =
     (case isBlack e s w of (b, w') \<Rightarrow>
        if \<not> b then waitForBlack fuel e s w' else (Finished, w'))"

definition waitForLine :: "nat \<Rightarrow> env \<Rightarrow> LightSensor \<Rightarrow> world \<Rightarrow> status \<times> world" where
  "waitForLine fuel e s w =
     (case waitForWhite fuel e s w of
        (Finished, w') \<Rightarrow> waitForBlack fuel e s w'
      | (st, w') \<Rightarrow> (st, w'))"

subsection \<open>class Robot\<close>

record Robot =
  frontMotor :: port
  rearMotor :: port
  leftMotor :: port
  rightMotor :: port
  leftSensor :: LightSensor
  rightSensor :: LightSensor
  gyroSensor :: port

text \<open>
  \<open>Robot.__init__\<close>: the motors on ports D, A, C, B; the sensor bounds from the
  calibration file when it exists; one read of the gyro angle and its reset (the
  \<open>wait\<close> calls and the read of the gyro's speed leave no trace in the model).
\<close>

definition Robot_init :: "env \<Rightarrow> world \<Rightarrow> Robot \<times> world" where
  "Robot_init e w =
     (let ls = (case sensorpoints_file w of
                  Some sp \<Rightarrow> LightSensor_init Port_S3 (leftLow sp) (leftHigh sp)
                | None \<Rightarrow> LightSensor_init Port_S3 10 105);
          rs = (case sensorpoints_file w of
                  Some sp \<Rightarrow> LightSensor_init Port_S2 (rightLow sp) (rightHigh sp)
                | None \<Rightarrow> LightSensor_init Port_S2 20 160);
          (a, w1) = gyro_angle e w
      in (\<lparr>frontMotor = Port_D, rearMotor = Port_A, leftMotor = Port_C, rightMotor = Port_B,
           leftSensor = ls, rightSensor = rs, gyroSensor = Port_S1\<rparr>,
          send (ResetAngle Port_S1 0) w1))"

text \<open>The two wheel speeds \<open>moveSteering\<close> computes, left then right.\<close>

definition leftMotorSpeed :: "real \<Rightarrow> real \<Rightarrow> real" where
  "leftMotorSpeed steering speed = speed * min 1 (0.02 * steering + 1)"

definition rightMotorSpeed :: "real \<Rightarrow> real \<Rightarrow> real" where
  "rightMotorSpeed steering speed = speed * min 1 (- 0.02 * steering + 1)"

definition moveSteering :: "Robot \<Rightarrow> real \<Rightarrow> real \<Rightarrow> world \<Rightarrow> world" where
  "moveSteering r steering speed w =
     send (Run (rightMotor r) (rightMotorSpeed steering speed))
       (send (Run (leftMotor r) (leftMotorSpeed steering speed)) w)"

definition stop :: "Robot \<Rightarrow> Stop \<Rightarrow> world \<Rightarrow> world" where
  "stop r brakeType w = send (StopCmd (leftMotor r) brakeType) (send (StopCmd (rightMotor r) brakeType) w)"

text \<open>
  \<open>calibrate\<close>. Its four local variables are kept in a \<open>sensorpoints\<close> record, the
  one written to the file at the end. Each \<open>if\<close> of the loop body calls \<open>light()\<close>
  once in its test and, when the test holds, once more for the value it stores.
\<close>

definition track_high :: "env \<Rightarrow> LightSensor \<Rightarrow> real \<Rightarrow> world \<Rightarrow> real \<times> world" where
  "track_high e s high w =
     (case light e s w of (l, w1) \<Rightarrow> if l > high then light e s w1 else (high, w1))"

definition track_low :: "env \<Rightarrow> LightSensor \<Rightarrow> real \<Rightarrow> world \<Rightarrow> real \<times> world" where
  "track_low e s low w =
     (case light e s w of (l, w1) \<Rightarrow> if l < low then light e s w1 else (low, w1))"

definition calibrate_body :: "env \<Rightarrow> Robot \<Rightarrow> sensorpoints \<Rightarrow> world \<Rightarrow> sensorpoints \<times> world" where
  "calibrate_body e r sp w =
     (case track_high e (rightSensor r) (rightHigh sp) w of (rh, w1) \<Rightarrow>
      case track_low e (rightSensor r) (rightLow sp) w1 of (rl, w2) \<Rightarrow>
      case track_high e (leftSensor r) (leftHigh sp) w2 of (lh, w3) \<Rightarrow>
      case track_low e (leftSensor r) (leftLow sp) w3 of (ll, w4) \<Rightarrow>
        (\<lparr>leftLow = ll, rightLow = rl, leftHigh = lh, rightHigh = rh\<rparr>, w4))"

fun calibrate_loop :: "nat \<Rightarrow> env \<Rightarrow> Robot \<Rightarrow> sensorpoints \<Rightarrow> world \<Rightarrow> status \<times> sensorpoints \<times> world" where
  "calibrate_loop 0 e r sp w = (StillRunning, sp, w)"
| "calibrate_loop (Suc fuel) e r sp w =
     (case timer_time e w of (t, w0) \<Rightarrow>
        if t < 5000 then
          (case calibrate_body e r sp w0 of (sp', w1) \<Rightarrow> calibrate_loop fuel e r sp' w1)
        else (Finished, sp, w0))"

definition calibrate :: "nat \<Rightarrow> env \<Rightarrow> Robot \<Rightarrow> world \<Rightarrow> status \<times> world" where
  "calibrate fuel e r w =
     (case calibrate_loop fuel e r
             \<lparr>leftLow = 70, rightLow = 70, leftHigh = 40, rightHigh = 40\<rparr>
             (moveSteering r 0 125 w) of
        (Finished, sp, w1) \<Rightarrow> (Finished, (stop r HOLD w1)\<lparr>sensorpoints_file := Some sp\<rparr>)
      | (st, sp, w1) \<Rightarrow> (st, w1))"

text \<open>
  \<open>drive\<close>. The loop condition joins its two tests with \<open>&\<close>, so both the motor angle
  and the clock are read at every check. The division by \<open>rotation\<close> in the ramp
  raises when \<open>rotation\<close> is zero.
\<close>

fun drive_loop ::
  "nat \<Rightarrow> env \<Rightarrow> Robot \<Rightarrow> real \<Rightarrow> real \<Rightarrow> real \<Rightarrow> real \<Rightarrow> real \<Rightarrow> world \<Rightarrow> status \<times> world" where
  "drive_loop 0 e r startDegrees rotation speed time kSteering w = (StillRunning, w)"
| "drive_loop (Suc fuel) e r startDegrees rotation speed time kSteering w =
     (case motor_angle e (rightMotor r) w of (a, w1) \<Rightarrow>
      case timer_time e w1 of (t, w2) \<Rightarrow>
        if \<bar>a\<bar> < \<bar>rotation\<bar> \<and> t < time * 1000 then
          (case gyro_angle e w2 of (currentDegrees, w3) \<Rightarrow>
           case motor_angle e (rightMotor r) w3 of (a2, w4) \<Rightarrow>
             if rotation = 0 then (ZeroDivisionError, w4)
             else
               let errorGyro = currentDegrees - startDegrees;
                   rampSpeed = min (sin (\<bar>a2\<bar> / rotation * 3.14)) (\<bar>speed\<bar> - 100)
               in drive_loop fuel e r startDegrees rotation speed time kSteering
                    (moveSteering r (errorGyro * kSteering * copysign 1 speed)
                       (rampSpeed * speed + copysign 100 speed) w4))
        else (Finished, w2))"

definition drive ::
  "nat \<Rightarrow> env \<Rightarrow> Robot \<Rightarrow> real \<Rightarrow> real \<Rightarrow> real \<Rightarrow> real \<Rightarrow> world \<Rightarrow> status \<times> world" where
  "drive fuel e r distance speed time kSteering w =
     (case gyro_angle e w of (startDegrees, w1) \<Rightarrow>
        let distance' = (if distance < 0 then \<bar>distance\<bar> else distance);
            speed' = (if distance < 0 then - speed else speed);
            rotation = distance' * 51.9
        in (case drive_loop fuel e r startDegrees rotation speed' time kSteering
                   (send (ResetAngle (rightMotor r) 0) w1) of
              (Finished, w2) \<Rightarrow> (Finished, stop r HOLD w2)
            | (st, w2) \<Rightarrow> (st, w2)))"

text \<open>
  \<open>turn\<close>. The gyro is read in the loop condition, again in the body, and once more
  for the final \<open>print\<close> (whose output is not modelled).
\<close>

fun turn_loop :: "nat \<Rightarrow> env \<Rightarrow> Robot \<Rightarrow> real \<Rightarrow> real \<Rightarrow> real \<Rightarrow> world \<Rightarrow> status \<times> world" where
  "turn_loop 0 e r angle speed time w = (StillRunning, w)"
| "turn_loop (Suc fuel) e r angle speed time w =
     (case gyro_angle e w of (g, w1) \<Rightarrow>
      case timer_time e w1 of (t, w2) \<Rightarrow>
        if \<bar>g - angle\<bar> > 0 \<and> t < time * 1000 then
          (case gyro_angle e w2 of (g2, w3) \<Rightarrow>
             let error = g2 - angle
             in turn_loop fuel e r angle speed time
                  (moveSteering r 100 (speed * error * 0.01 + copysign 20 error) w3))
        else (Finished, w2))"

definition turn :: "nat \<Rightarrow> env \<Rightarrow> Robot \<Rightarrow> real \<Rightarrow> real \<Rightarrow> real \<Rightarrow> world \<Rightarrow> status \<times> world" where
  "turn fuel e r angle speed time w =
     (case turn_loop fuel e r angle speed time w of
        (Finished, w1) \<Rightarrow> (Finished, snd (gyro_angle e (stop r HOLD w1)))
      | (st, w1) \<Rightarrow> (st, w1))"

text \<open>
  Line following. The steering each variant computes in one pass of its loop body is a
  function of the follow sensor's \<open>line\<close> threshold, its reading, \<open>lastError\<close> and
  \<open>kSide\<close>; the loop functions return the final \<open>lastError\<close> with the world.
\<close>

definition kSide_of :: "bool \<Rightarrow> real" where
  "kSide_of rightSide = (if rightSide then 1 else - 1)"

definition lineFollow2Line_steering :: "real \<Rightarrow> real \<Rightarrow> real \<Rightarrow> real \<Rightarrow> real" where
  "lineFollow2Line_steering lineValue reading lastError kSide =
     (let error = lineValue - reading;
          pCorrection = error * 0.25;
          dError = lastError - error;
          dCorrection = dError * 1.25
      in (pCorrection - dCorrection) * kSide)"

definition lineFollow4Time_steering :: "real \<Rightarrow> real \<Rightarrow> real \<Rightarrow> real \<Rightarrow> real" where
  "lineFollow4Time_steering lineValue reading lastError kSide =
     (let error = lineValue - reading;
          pCorrection = error * 0.25;
          dError = lastError - error;
          dCorrection = dError * 1.2
      in (pCorrection - dCorrection) * kSide)"

definition lineFollow2Line_body ::
  "env \<Rightarrow> Robot \<Rightarrow> LightSensor \<Rightarrow> real \<Rightarrow> real \<Rightarrow> real \<Rightarrow> world \<Rightarrow> real \<times> world" where
  "lineFollow2Line_body e r followSensor kSide speed lastError w =
     (case light e followSensor w of (l, w1) \<Rightarrow>
        (line followSensor - l,
         moveSteering r (lineFollow2Line_steering (line followSensor) l lastError kSide) speed w1))"

definition lineFollow4Time_body ::
  "env \<Rightarrow> Robot \<Rightarrow> LightSensor \<Rightarrow> real \<Rightarrow> real \<Rightarrow> real \<Rightarrow> world \<Rightarrow> real \<times> world" where
  "lineFollow4Time_body e r followSensor kSide speed lastError w =
     (case light e followSensor w of (l, w1) \<Rightarrow>
        (line followSensor - l,
         moveSteering r (lineFollow4Time_steering (line followSensor) l lastError kSide) speed w1))"

fun lineFollow2Line_loop ::
  "nat \<Rightarrow> env \<Rightarrow> Robot \<Rightarrow> LightSensor \<Rightarrow> LightSensor \<Rightarrow> real \<Rightarrow> real \<Rightarrow> real \<Rightarrow> world
     \<Rightarrow> status \<times> real \<times> world" where
  "lineFollow2Line_loop 0 e r followSensor stopSensor kSide speed lastError w =
     (StillRunning, lastError, w)"
| "lineFollow2Line_loop (Suc fuel) e r followSensor stopSensor kSide speed lastError w =
     (case isWhite e stopSensor w of (b, w1) \<Rightarrow>
        if \<not> b then
          (case lineFollow2Line_body e r followSensor kSide speed lastError w1 of (error, w2) \<Rightarrow>
             lineFollow2Line_loop fuel e r followSensor stopSensor kSide speed error w2)
        else (Finished, lastError, w1))"

definition lineFollow2Line ::
  "nat \<Rightarrow> env \<Rightarrow> Robot \<Rightarrow> real \<Rightarrow> bool \<Rightarrow> bool \<Rightarrow> world \<Rightarrow> status \<times> world" where
  "lineFollow2Line fuel e r speed rightSide useRightSensor w =
     (let followSensor = (if useRightSensor then rightSensor r else leftSensor r);
          stopSensor = (if useRightSensor then leftSensor r else rightSensor r)
      in case lineFollow2Line_loop fuel e r followSensor stopSensor (kSide_of rightSide) speed 0 w of
           (Finished, lastError, w1) \<Rightarrow> (Finished, stop r HOLD w1)
         | (st, lastError, w1) \<Rightarrow> (st, w1))"

fun lineFollow4Time_loop ::
  "nat \<Rightarrow> env \<Rightarrow> Robot \<Rightarrow> LightSensor \<Rightarrow> real \<Rightarrow> real \<Rightarrow> real \<Rightarrow> real \<Rightarrow> world
     \<Rightarrow> status \<times> real \<times> world" where
  "lineFollow4Time_loop 0 e r followSensor kSide speed time lastError w =
     (StillRunning, lastError, w)"
| "lineFollow4Time_loop (Suc fuel) e r followSensor kSide speed time lastError w =
     (case timer_time e w of (t, w1) \<Rightarrow>
        if t < time * 1000 then
          (case lineFollow4Time_body e r followSensor kSide speed lastError w1 of (error, w2) \<Rightarrow>
             lineFollow4Time_loop fuel e r followSensor kSide speed time error w2)
        else (Finished, lastError, w1))"

definition lineFollow4Time ::
  "nat \<Rightarrow> env \<Rightarrow> Robot \<Rightarrow> real \<Rightarrow> real \<Rightarrow> bool \<Rightarrow> bool \<Rightarrow> world \<Rightarrow> status \<times> world" where
  "lineFollow4Time fuel e r speed time rightSide useRightSensor w =
     (let followSensor = (if useRightSensor then rightSensor r else leftSensor r)
      in case lineFollow4Time_loop fuel e r followSensor (kSide_of rightSide) speed time 0 w of
           (Finished, lastError, w1) \<Rightarrow> (Finished, stop r HOLD w1)
         | (st, lastError, w1) \<Rightarrow> (st, w1))"

text \<open>\<open>turn2Line\<close> (its \<open>time\<close> parameter is never used) and \<open>drive2Line\<close>.\<close>

definition turn2Line :: "nat \<Rightarrow> env \<Rightarrow> Robot \<Rightarrow> real \<Rightarrow> bool \<Rightarrow> real \<Rightarrow> world \<Rightarrow> status \<times> world" where
  "turn2Line fuel e r speed useRightSensor time w =
     (let stopSensor = (if useRightSensor then rightSensor r else leftSensor r)
      in case waitForLine fuel e stopSensor (moveSteering r 100 speed w) of
           (Finished, w1) \<Rightarrow> (Finished, stop r HOLD w1)
         | (st, w1) \<Rightarrow> (st, w1))"

definition drive2Line ::
  "nat \<Rightarrow> env \<Rightarrow> Robot \<Rightarrow> real \<Rightarrow> real \<Rightarrow> real \<Rightarrow> bool \<Rightarrow> world \<Rightarrow> status \<times> world" where
  "drive2Line fuel e r speed distanceBefore distanceAfter useRightSensor w =
     (let stopSensor = (if useRightSensor then rightSensor r else leftSensor r)
      in case drive fuel e r distanceBefore speed 20 1 w of
           (Finished, w1) \<Rightarrow>
             (case waitForLine fuel e stopSensor (moveSteering r 0 (0.5 * speed) w1) of
                (Finished, w2) \<Rightarrow> drive fuel e r distanceAfter speed 20 1 (stop r HOLD w2)
              | (st, w2) \<Rightarrow> (st, w2))
         | (st, w1) \<Rightarrow> (st, w1))"

subsection \<open>Which motors an operation commands\<close>

text \<open>
  Between two worlds \<open>w\<close> and \<open>w'\<close>: the log of \<open>w'\<close> extends that of \<open>w\<close> by commands
  to the left and right motor only; and the front and the rear motor have received the
  same commands in both.
\<close>

definition only_drive_motors :: "Robot \<Rightarrow> world \<Rightarrow> world \<Rightarrow> bool" where
  "only_drive_motors r w w' =
     (take (length (cmd_log w)) (cmd_log w') = cmd_log w
      \<and> list_all (\<lambda>c. cmd_port c = leftMotor r \<or> cmd_port c = rightMotor r)
           (drop (length (cmd_log w)) (cmd_log w')))"

definition front_rear_untouched :: "Robot \<Rightarrow> world \<Rightarrow> world \<Rightarrow> bool" where
  "front_rear_untouched r w w' =
     (cmds_of (frontMotor r) (cmd_log w') = cmds_of (frontMotor r) (cmd_log w)
      \<and> cmds_of (rearMotor r) (cmd_log w') = cmds_of (rearMotor r) (cmd_log w))"

subsection \<open>A test bench\<close>

text \<open>
  The world before any device was used, and an environment built from four reading
  sequences (gyro, clock, motor angle, red channel of the sensors), for running the
  model at concrete inputs.
\<close>

definition world0 :: world where
  "world0 = \<lparr>gyro_n = 0, clock_n = 0, angle_n = (\<lambda>p. 0), rgb_n = (\<lambda>p. 0), cmd_log = [],
             sensorpoints_file = None\<rparr>"

definition bench :: "(nat \<Rightarrow> real) \<Rightarrow> (nat \<Rightarrow> real) \<Rightarrow> (nat \<Rightarrow> real) \<Rightarrow> (nat \<Rightarrow> real) \<Rightarrow> env" where
  "bench gyro clock angle lights =
     \<lparr>gyro_readings = gyro, clock_readings = clock, angle_readings = (\<lambda>p. angle),
      rgb_readings = (\<lambda>p k. (lights k, 0, 0))\<rparr>"

section \<open>Basic facts\<close>

text \<open>What each primitive read and command leaves in the world.\<close>

lemma send_simps [simp]:
  "cmd_log (send c w) = cmd_log w @ [c]"
  "gyro_n (send c w) = gyro_n w"
  "clock_n (send c w) = clock_n w"
  "angle_n (send c w) = angle_n w"
  "rgb_n (send c w) = rgb_n w"
  "sensorpoints_file (send c w) = sensorpoints_file w"
  by (simp_all add: send_def)

lemma gyro_angle_simps [simp]:
  "fst (gyro_angle e w) = gyro_readings e (gyro_n w)"
  "cmd_log (snd (gyro_angle e w)) = cmd_log w"
  "gyro_n (snd (gyro_angle e w)) = Suc (gyro_n w)"
  "clock_n (snd (gyro_angle e w)) = clock_n w"
  "angle_n (snd (gyro_angle e w)) = angle_n w"
  "rgb_n (snd (gyro_angle e w)) = rgb_n w"
  "sensorpoints_file (snd (gyro_angle e w)) = sensorpoints_file w"
  by (simp_all add: gyro_angle_def)

lemma timer_time_simps [simp]:
  "fst (timer_time e w) = clock_readings e (clock_n w)"
  "cmd_log (snd (timer_time e w)) = cmd_log w"
  "gyro_n (snd (timer_time e w)) = gyro_n w"
  "clock_n (snd (timer_time e w)) = Suc (clock_n w)"
  "angle_n (snd (timer_time e w)) = angle_n w"
  "rgb_n (snd (timer_time e w)) = rgb_n w"
  "sensorpoints_file (snd (timer_time e w)) = sensorpoints_file w"
  by (simp_all add: timer_time_def)

lemma motor_angle_simps [simp]:
  "fst (motor_angle e p w) = angle_readings e p (angle_n w p)"
  "cmd_log (snd (motor_angle e p w)) = cmd_log w"
  "gyro_n (snd (motor_angle e p w)) = gyro_n w"
  "clock_n (snd (motor_angle e p w)) = clock_n w"
  "angle_n (snd (motor_angle e p w)) = (angle_n w)(p := Suc (angle_n w p))"
  "rgb_n (snd (motor_angle e p w)) = rgb_n w"
  "sensorpoints_file (snd (motor_angle e p w)) = sensorpoints_file w"
  by (simp_all add: motor_angle_def)

lemma light_simps [simp]:
  "fst (light e s w) = light_at e (sensor_port s) (rgb_n w (sensor_port s))"
  "cmd_log (snd (light e s w)) = cmd_log w"
  "gyro_n (snd (light e s w)) = gyro_n w"
  "clock_n (snd (light e s w)) = clock_n w"
  "angle_n (snd (light e s w)) = angle_n w"
  "rgb_n (snd (light e s w)) = (rgb_n w)(sensor_port s := Suc (rgb_n w (sensor_port s)))"
  "sensorpoints_file (snd (light e s w)) = sensorpoints_file w"
  by (simp_all add: light_def)

lemma isWhite_simps [simp]:
  "fst (isWhite e s w) = (light_at e (sensor_port s) (rgb_n w (sensor_port s)) \<ge> white s)"
  "snd (isWhite e s w) = snd (light e s w)"
  by (simp_all add: isWhite_def case_prod_beta)

lemma isBlack_simps [simp]:
  "fst (isBlack e s w) = (light_at e (sensor_port s) (rgb_n w (sensor_port s)) \<le> black s)"
  "snd (isBlack e s w) = snd (light e s w)"
  by (simp_all add: isBlack_def case_prod_beta)

lemma moveSteering_simps [simp]:
  "cmd_log (moveSteering r st sp w) =
     cmd_log w @ [Run (leftMotor r) (leftMotorSpeed st sp), Run (rightMotor r) (rightMotorSpeed st sp)]"
  "gyro_n (moveSteering r st sp w) = gyro_n w"
  "clock_n (moveSteering r st sp w) = clock_n w"
  "angle_n (moveSteering r st sp w) = angle_n w"
  "rgb_n (moveSteering r st sp w) = rgb_n w"
  "sensorpoints_file (moveSteering r st sp w) = sensorpoints_file w"
  by (simp_all add: moveSteering_def)

lemma stop_simps [simp]:
  "cmd_log (stop r b w) = cmd_log w @ [StopCmd (rightMotor r) b, StopCmd (leftMotor r) b]"
  "gyro_n (stop r b w) = gyro_n w"
  "clock_n (stop r b w) = clock_n w"
  "angle_n (stop r b w) = angle_n w"
  "rgb_n (stop r b w) = rgb_n w"
  "sensorpoints_file (stop r b w) = sensorpoints_file w"
  by (simp_all add: stop_def)

text \<open>The test bench and the robot that \<open>Robot.__init__\<close> builds without a calibration file.\<close>

lemma light_at_bench [simp]: "light_at (bench g c a l) p k = l k"
  by (simp add: light_at_def bench_def)

lemma bench_simps [simp]:
  "gyro_readings (bench g c a l) = g"
  "clock_readings (bench g c a l) = c"
  "angle_readings (bench g c a l) p = a"
  by (simp_all add: bench_def)

lemma world0_simps [simp]:
  "gyro_n world0 = 0" "clock_n world0 = 0" "angle_n world0 p = 0" "rgb_n world0 p = 0"
  "cmd_log world0 = []" "sensorpoints_file world0 = None"
  by (simp_all add: world0_def)

lemma LightSensor_init_simps [simp]:
  "sensor_port (LightSensor_init p low high) = p"
  by (simp add: LightSensor_init_def)

lemma Robot_init_world0 [simp]:
  "fst (Robot_init e world0) =
     \<lparr>frontMotor = Port_D, rearMotor = Port_A, leftMotor = Port_C, rightMotor = Port_B,
      leftSensor = LightSensor_init Port_S3 10 105, rightSensor = LightSensor_init Port_S2 20 160,
      gyroSensor = Port_S1\<rparr>"
  by (simp add: Robot_init_def case_prod_beta)

section \<open>The polling loops\<close>

text \<open>
  A wait loop that meets its first qualifying reading at its k-th poll returns there,
  having read the sensor \<open>k + 1\<close> times; while no reading qualifies it is still
  running, whatever the fuel.
\<close>

lemma waitForWhite_returns:
  "(\<forall>i<k. light_at e (sensor_port s) (rgb_n w (sensor_port s) + i) < white s) \<Longrightarrow>
   light_at e (sensor_port s) (rgb_n w (sensor_port s) + k) \<ge> white s \<Longrightarrow>
   fst (waitForWhite (Suc (k + extra)) e s w) = Finished
   \<and> rgb_n (snd (waitForWhite (Suc (k + extra)) e s w)) (sensor_port s)
       = rgb_n w (sensor_port s) + Suc k"
proof (induction k arbitrary: w)
  case 0
  then show ?case by (simp add: case_prod_beta)
next
  case (Suc k)
  let ?w = "snd (light e s w)"
  have first: "light_at e (sensor_port s) (rgb_n w (sensor_port s)) < white s"
    using Suc.prems(1) by force
  have "\<forall>i<k. light_at e (sensor_port s) (rgb_n ?w (sensor_port s) + i) < white s"
    using Suc.prems(1) by auto
  moreover have "light_at e (sensor_port s) (rgb_n ?w (sensor_port s) + k) \<ge> white s"
    using Suc.prems(2) by simp
  ultimately have "fst (waitForWhite (Suc (k + extra)) e s ?w) = Finished
   \<and> rgb_n (snd (waitForWhite (Suc (k + extra)) e s ?w)) (sensor_port s)
       = rgb_n ?w (sensor_port s) + Suc k"
    by (rule Suc.IH)
  then show ?case using first by (simp add: case_prod_beta)
qed

lemma waitForWhite_blocks:
  "(\<forall>i<fuel. light_at e (sensor_port s) (rgb_n w (sensor_port s) + i) < white s) \<Longrightarrow>
   fst (waitForWhite fuel e s w) = StillRunning
   \<and> rgb_n (snd (waitForWhite fuel e s w)) (sensor_port s) = rgb_n w (sensor_port s) + fuel"
proof (induction fuel arbitrary: w)
  case 0
  then show ?case by simp
next
  case (Suc fuel)
  let ?w = "snd (light e s w)"
  have first: "light_at e (sensor_port s) (rgb_n w (sensor_port s)) < white s"
    using Suc.prems(1) by force
  have "\<forall>i<fuel. light_at e (sensor_port s) (rgb_n ?w (sensor_port s) + i) < white s"
    using Suc.prems(1) by auto
  then have "fst (waitForWhite fuel e s ?w) = StillRunning
   \<and> rgb_n (snd (waitForWhite fuel e s ?w)) (sensor_port s) = rgb_n ?w (sensor_port s) + fuel"
    by (rule Suc.IH)
  then show ?case using first by (simp add: case_prod_beta)
qed

lemma waitForBlack_returns:
  "(\<forall>i<k. light_at e (sensor_port s) (rgb_n w (sensor_port s) + i) > black s) \<Longrightarrow>
   light_at e (sensor_port s) (rgb_n w (sensor_port s) + k) \<le> black s \<Longrightarrow>
   fst (waitForBlack (Suc (k + extra)) e s w) = Finished
   \<and> rgb_n (snd (waitForBlack (Suc (k + extra)) e s w)) (sensor_port s)
       = rgb_n w (sensor_port s) + Suc k"
proof (induction k arbitrary: w)
  case 0
  then show ?case by (simp add: case_prod_beta)
next
  case (Suc k)
  let ?w = "snd (light e s w)"
  have first: "light_at e (sensor_port s) (rgb_n w (sensor_port s)) > black s"
    using Suc.prems(1) by force
  have "\<forall>i<k. light_at e (sensor_port s) (rgb_n ?w (sensor_port s) + i) > black s"
    using Suc.prems(1) by auto
  moreover have "light_at e (sensor_port s) (rgb_n ?w (sensor_port s) + k) \<le> black s"
    using Suc.prems(2) by simp
  ultimately have "fst (waitForBlack (Suc (k + extra)) e s ?w) = Finished
   \<and> rgb_n (snd (waitForBlack (Suc (k + extra)) e s ?w)) (sensor_port s)
       = rgb_n ?w (sensor_port s) + Suc k"
    by (rule Suc.IH)
  then show ?case using first by (simp add: case_prod_beta)
qed

lemma waitForBlack_blocks:
  "(\<forall>i<fuel. light_at e (sensor_port s) (rgb_n w (sensor_port s) + i) > black s) \<Longrightarrow>
   fst (waitForBlack fuel e s w) = StillRunning
   \<and> rgb_n (snd (waitForBlack fuel e s w)) (sensor_port s) = rgb_n w (sensor_port s) + fuel"
proof (induction fuel arbitrary: w)
  case 0
  then show ?case by simp
next
  case (Suc fuel)
  let ?w = "snd (light e s w)"
  have first: "light_at e (sensor_port s) (rgb_n w (sensor_port s)) > black s"
    using Suc.prems(1) by force
  have "\<forall>i<fuel. light_at e (sensor_port s) (rgb_n ?w (sensor_port s) + i) > black s"
    using Suc.prems(1) by auto
  then have "fst (waitForBlack fuel e s ?w) = StillRunning
   \<and> rgb_n (snd (waitForBlack fuel e s ?w)) (sensor_port s) = rgb_n ?w (sensor_port s) + fuel"
    by (rule Suc.IH)
  then show ?case using first by (simp add: case_prod_beta)
qed

text \<open>
  The loop of \<open>drive\<close> with a nonzero rotation target: once a clock reading is at or
  beyond the time limit, the loop has finished at that check at the latest.
\<close>

lemma drive_loop_timeout:
  "rotation \<noteq> 0 \<Longrightarrow> clock_readings e (clock_n w + n) \<ge> time * 1000 \<Longrightarrow>
   fst (drive_loop (Suc (n + extra)) e r sd rotation speed time k w) = Finished
   \<and> clock_n (snd (drive_loop (Suc (n + extra)) e r sd rotation speed time k w)) \<le> clock_n w + Suc n"
proof (induction n arbitrary: w)
  case 0
  then show ?case by (simp add: case_prod_beta)
next
  case (Suc n)
  show ?case
  proof (cases "\<bar>angle_readings e (rightMotor r) (angle_n w (rightMotor r))\<bar> < \<bar>rotation\<bar>
                 \<and> clock_readings e (clock_n w) < time * 1000")
    case False
    then show ?thesis by (auto simp add: case_prod_beta)
  next
    case True
    let ?w4 = "snd (motor_angle e (rightMotor r) (snd (gyro_angle e
                 (snd (timer_time e (snd (motor_angle e (rightMotor r) w)))))))"
    let ?w5 = "moveSteering r
                 ((fst (gyro_angle e (snd (timer_time e (snd (motor_angle e (rightMotor r) w))))) - sd)
                    * k * copysign 1 speed)
                 (min (sin (\<bar>fst (motor_angle e (rightMotor r) (snd (gyro_angle e
                          (snd (timer_time e (snd (motor_angle e (rightMotor r) w)))))))\<bar>
                        / rotation * 3.14)) (\<bar>speed\<bar> - 100) * speed + copysign 100 speed) ?w4"
    have c: "clock_n ?w5 = Suc (clock_n w)" by simp
    have "clock_readings e (clock_n ?w5 + n) \<ge> time * 1000"
      using Suc.prems(2) by (simp only: c) simp
    with Suc.prems(1) have ih: "fst (drive_loop (Suc (n + extra)) e r sd rotation speed time k ?w5) = Finished
      \<and> clock_n (snd (drive_loop (Suc (n + extra)) e r sd rotation speed time k ?w5)) \<le> clock_n ?w5 + Suc n"
      by (rule Suc.IH)
    have step: "drive_loop (Suc (Suc n + extra)) e r sd rotation speed time k w
                = drive_loop (Suc (n + extra)) e r sd rotation speed time k ?w5"
      using True Suc.prems(1) by (simp add: case_prod_beta Let_def del: drive_loop.simps(2) add: drive_loop.simps(2)[of "Suc (n + extra)" e r sd rotation speed time k w])
    show ?thesis unfolding step using ih by (simp only: c) simp
  qed
qed


text \<open>
  The loop of \<open>turn\<close>: check \<open>i\<close> reads the gyro at index \<open>2 i\<close> and the clock at
  index \<open>i\<close> past the starting counters (each pass of the body reads the gyro once
  more). The loop finishes at the first check whose gyro reading equals the target or
  whose clock reading has reached the limit.
\<close>

lemma turn_loop_exits:
  "(\<forall>i<n. gyro_readings e (gyro_n w + 2 * i) \<noteq> angle \<and> clock_readings e (clock_n w + i) < time * 1000) \<Longrightarrow>
   gyro_readings e (gyro_n w + 2 * n) = angle \<or> clock_readings e (clock_n w + n) \<ge> time * 1000 \<Longrightarrow>
   fst (turn_loop (Suc (n + extra)) e r angle speed time w) = Finished
   \<and> gyro_n (snd (turn_loop (Suc (n + extra)) e r angle speed time w)) = gyro_n w + 2 * n + 1
   \<and> clock_n (snd (turn_loop (Suc (n + extra)) e r angle speed time w)) = clock_n w + n + 1
   \<and> length (cmd_log (snd (turn_loop (Suc (n + extra)) e r angle speed time w)))
       = length (cmd_log w) + 2 * n"
proof (induction n arbitrary: w)
  case 0
  then show ?case by (auto simp add: case_prod_beta)
next
  case (Suc n)
  let ?w3 = "snd (gyro_angle e (snd (timer_time e (snd (gyro_angle e w)))))"
  let ?w4 = "moveSteering r 100
               (speed * (gyro_readings e (Suc (gyro_n w)) - angle) * 0.01
                  + copysign 20 (gyro_readings e (Suc (gyro_n w)) - angle)) ?w3"
  have first: "gyro_readings e (gyro_n w) \<noteq> angle \<and> clock_readings e (clock_n w) < time * 1000"
    using Suc.prems(1) by force
  have g: "gyro_n ?w4 = gyro_n w + 2" and c: "clock_n ?w4 = clock_n w + 1"
    and lg: "length (cmd_log ?w4) = length (cmd_log w) + 2" by simp_all
  have "\<forall>i<n. gyro_readings e (gyro_n ?w4 + 2 * i) \<noteq> angle
              \<and> clock_readings e (clock_n ?w4 + i) < time * 1000"
  proof (intro allI impI)
    fix i assume "i < n"
    then have "Suc i < Suc n" by simp
    with Suc.prems(1) have "gyro_readings e (gyro_n w + 2 * Suc i) \<noteq> angle
       \<and> clock_readings e (clock_n w + Suc i) < time * 1000" by blast
    then show "gyro_readings e (gyro_n ?w4 + 2 * i) \<noteq> angle
              \<and> clock_readings e (clock_n ?w4 + i) < time * 1000"
      by (simp only: g c) (simp add: add.commute add.left_commute)
  qed
  moreover have "gyro_readings e (gyro_n ?w4 + 2 * n) = angle
                 \<or> clock_readings e (clock_n ?w4 + n) \<ge> time * 1000"
    using Suc.prems(2) by (simp only: g c) (simp add: add.commute add.left_commute)
  ultimately have ih: "fst (turn_loop (Suc (n + extra)) e r angle speed time ?w4) = Finished
   \<and> gyro_n (snd (turn_loop (Suc (n + extra)) e r angle speed time ?w4)) = gyro_n ?w4 + 2 * n + 1
   \<and> clock_n (snd (turn_loop (Suc (n + extra)) e r angle speed time ?w4)) = clock_n ?w4 + n + 1
   \<and> length (cmd_log (snd (turn_loop (Suc (n + extra)) e r angle speed time ?w4)))
       = length (cmd_log ?w4) + 2 * n"
    by (rule Suc.IH)
  have step: "turn_loop (Suc (Suc n + extra)) e r angle speed time w
              = turn_loop (Suc (n + extra)) e r angle speed time ?w4"
    using first by (simp add: case_prod_beta Let_def del: turn_loop.simps(2)
        add: turn_loop.simps(2)[of "Suc (n + extra)" e r angle speed time w])
  show ?case unfolding step using ih by (simp only: g c lg) simp
qed

lemma turn_loop_continues:
  "(\<forall>i<fuel. gyro_readings e (gyro_n w + 2 * i) \<noteq> angle \<and> clock_readings e (clock_n w + i) < time * 1000) \<Longrightarrow>
   fst (turn_loop fuel e r angle speed time w) = StillRunning"
proof (induction fuel arbitrary: w)
  case 0
  then show ?case by simp
next
  case (Suc n)
  let ?w3 = "snd (gyro_angle e (snd (timer_time e (snd (gyro_angle e w)))))"
  let ?w4 = "moveSteering r 100
               (speed * (gyro_readings e (Suc (gyro_n w)) - angle) * 0.01
                  + copysign 20 (gyro_readings e (Suc (gyro_n w)) - angle)) ?w3"
  have first: "gyro_readings e (gyro_n w) \<noteq> angle \<and> clock_readings e (clock_n w) < time * 1000"
    using Suc.prems(1) by force
  have g: "gyro_n ?w4 = gyro_n w + 2" and c: "clock_n ?w4 = clock_n w + 1" by simp_all
  have "\<forall>i<n. gyro_readings e (gyro_n ?w4 + 2 * i) \<noteq> angle
              \<and> clock_readings e (clock_n ?w4 + i) < time * 1000"
  proof (intro allI impI)
    fix i assume "i < n"
    then have "Suc i < Suc n" by simp
    with Suc.prems(1) have "gyro_readings e (gyro_n w + 2 * Suc i) \<noteq> angle
       \<and> clock_readings e (clock_n w + Suc i) < time * 1000" by blast
    then show "gyro_readings e (gyro_n ?w4 + 2 * i) \<noteq> angle
              \<and> clock_readings e (clock_n ?w4 + i) < time * 1000"
      by (simp only: g c) (simp add: add.commute add.left_commute)
  qed
  then have ih: "fst (turn_loop n e r angle speed time ?w4) = StillRunning"
    by (rule Suc.IH)
  have step: "turn_loop (Suc n) e r angle speed time w = turn_loop n e r angle speed time ?w4"
    using first by (simp add: case_prod_beta Let_def)
  show ?case unfolding step using ih .
qed

text \<open>\<open>turn\<close> stops the motors and reads the gyro once more when its loop has finished.\<close>

lemma turn_finishes:
  "fst (turn_loop f e r a s t w) = Finished \<Longrightarrow>
   turn f e r a s t w = (Finished, snd (gyro_angle e (stop r HOLD (snd (turn_loop f e r a s t w)))))"
  by (cases "turn_loop f e r a s t w") (simp add: turn_def del: turn_loop.simps)

lemma turn_still_running:
  "fst (turn_loop f e r a s t w) = StillRunning \<Longrightarrow> fst (turn f e r a s t w) = StillRunning"
  by (cases "turn_loop f e r a s t w") (simp add: turn_def del: turn_loop.simps)

text \<open>
  A gyro that shows \<open>10 i\<close> degrees throughout tick \<open>i\<close> (one check of the loop
  condition and, when it holds, one pass of the body) answers its k-th read with
  \<open>10 (k div 2)\<close>.
\<close>

lemma turn_exits:
  assumes "\<forall>i<n. gyro_readings e (gyro_n w + 2 * i) \<noteq> angle \<and> clock_readings e (clock_n w + i) < time * 1000"
    and "gyro_readings e (gyro_n w + 2 * n) = angle \<or> clock_readings e (clock_n w + n) \<ge> time * 1000"
  shows "fst (turn (Suc (n + extra)) e r angle speed time w) = Finished
   \<and> gyro_n (snd (turn (Suc (n + extra)) e r angle speed time w)) = gyro_n w + 2 * n + 2
   \<and> clock_n (snd (turn (Suc (n + extra)) e r angle speed time w)) = clock_n w + n + 1
   \<and> length (cmd_log (snd (turn (Suc (n + extra)) e r angle speed time w)))
       = length (cmd_log w) + 2 * n + 2"
proof -
  have l: "fst (turn_loop (Suc (n + extra)) e r angle speed time w) = Finished
   \<and> gyro_n (snd (turn_loop (Suc (n + extra)) e r angle speed time w)) = gyro_n w + 2 * n + 1
   \<and> clock_n (snd (turn_loop (Suc (n + extra)) e r angle speed time w)) = clock_n w + n + 1
   \<and> length (cmd_log (snd (turn_loop (Suc (n + extra)) e r angle speed time w)))
       = length (cmd_log w) + 2 * n"
    using assms by (rule turn_loop_exits)
  then have "turn (Suc (n + extra)) e r angle speed time w =
    (Finished, snd (gyro_angle e (stop r HOLD (snd (turn_loop (Suc (n + extra)) e r angle speed time w)))))"
    by (intro turn_finishes) (rule conjunct1)
  then show ?thesis using l by (simp del: turn_loop.simps)
qed

lemma turn_simulated:
  assumes g: "gyro_readings e = (\<lambda>k. 10 * real (k div 2))"
    and w: "gyro_n w = 0" "clock_n w = 0"
    and c: "\<forall>i<10. clock_readings e i < 5000"
  shows "fst (turn (Suc (9 + extra)) e r 90 300 5 w) = Finished
   \<and> clock_n (snd (turn (Suc (9 + extra)) e r 90 300 5 w)) = 10
   \<and> gyro_n (snd (turn (Suc (9 + extra)) e r 90 300 5 w)) = 20
   \<and> length (cmd_log (snd (turn (Suc (9 + extra)) e r 90 300 5 w))) = length (cmd_log w) + 20
   \<and> gyro_readings e 18 - 90 = 0 \<and> gyro_readings e 19 - 90 = 0"
proof -
  have a: "\<forall>i<9. gyro_readings e (gyro_n w + 2 * i) \<noteq> 90 \<and> clock_readings e (clock_n w + i) < 5 * 1000"
  proof (intro allI impI)
    fix i :: nat assume "i < 9"
    then have "10 * real i \<noteq> 90" by simp
    moreover have "clock_readings e i < 5000" using c \<open>i < 9\<close> by simp
    ultimately show "gyro_readings e (gyro_n w + 2 * i) \<noteq> 90 \<and> clock_readings e (clock_n w + i) < 5 * 1000"
      by (simp add: g w)
  qed
  have b: "gyro_readings e (gyro_n w + 2 * 9) = 90 \<or> clock_readings e (clock_n w + 9) \<ge> 5 * 1000"
    by (simp add: g w)
  have "fst (turn (Suc (9 + extra)) e r 90 300 5 w) = Finished
   \<and> gyro_n (snd (turn (Suc (9 + extra)) e r 90 300 5 w)) = gyro_n w + 2 * 9 + 2
   \<and> clock_n (snd (turn (Suc (9 + extra)) e r 90 300 5 w)) = clock_n w + 9 + 1
   \<and> length (cmd_log (snd (turn (Suc (9 + extra)) e r 90 300 5 w)))
       = length (cmd_log w) + 2 * 9 + 2"
    using a b by (rule turn_exits)
  then show ?thesis by (simp add: g w)
qed


section \<open>The frame of the motion operations\<close>

text \<open>
  Reads leave the command log alone, and \<open>moveSteering\<close>, \<open>stop\<close> and the angle
  reset of \<open>drive\<close> address the left or the right motor; each loop and each operation
  built from them inherits this, whether it finishes, raises or is still running.
\<close>

lemma odm_iff:
  "only_drive_motors r w w' =
     (\<exists>cs. cmd_log w' = cmd_log w @ cs
           \<and> list_all (\<lambda>c. cmd_port c = leftMotor r \<or> cmd_port c = rightMotor r) cs)"
proof
  assume "only_drive_motors r w w'"
  then have t: "take (length (cmd_log w)) (cmd_log w') = cmd_log w"
    and d: "list_all (\<lambda>c. cmd_port c = leftMotor r \<or> cmd_port c = rightMotor r)
              (drop (length (cmd_log w)) (cmd_log w'))"
    by (simp_all add: only_drive_motors_def)
  have "cmd_log w' = take (length (cmd_log w)) (cmd_log w') @ drop (length (cmd_log w)) (cmd_log w')"
    by simp
  then have "cmd_log w' = cmd_log w @ drop (length (cmd_log w)) (cmd_log w')"
    by (simp only: t)
  with d show "\<exists>cs. cmd_log w' = cmd_log w @ cs
           \<and> list_all (\<lambda>c. cmd_port c = leftMotor r \<or> cmd_port c = rightMotor r) cs"
    by blast
next
  assume "\<exists>cs. cmd_log w' = cmd_log w @ cs
           \<and> list_all (\<lambda>c. cmd_port c = leftMotor r \<or> cmd_port c = rightMotor r) cs"
  then show "only_drive_motors r w w'"
    by (auto simp add: only_drive_motors_def)
qed

lemma odm_refl [simp]: "only_drive_motors r w w"
  by (simp add: only_drive_motors_def)

lemma odm_same_log: "cmd_log w'' = cmd_log w' \<Longrightarrow> only_drive_motors r w w'' = only_drive_motors r w w'"
  by (simp add: only_drive_motors_def)

lemma odm_reads [simp]:
  "only_drive_motors r w (snd (gyro_angle e w')) = only_drive_motors r w w'"
  "only_drive_motors r w (snd (timer_time e w')) = only_drive_motors r w w'"
  "only_drive_motors r w (snd (motor_angle e p w')) = only_drive_motors r w w'"
  "only_drive_motors r w (snd (light e s w')) = only_drive_motors r w w'"
  "only_drive_motors r w (w'\<lparr>sensorpoints_file := f\<rparr>) = only_drive_motors r w w'"
  by (rule odm_same_log, simp)+

lemma odm_send:
  "only_drive_motors r w w' \<Longrightarrow> cmd_port c = leftMotor r \<or> cmd_port c = rightMotor r \<Longrightarrow>
   only_drive_motors r w (send c w')"
  by (auto simp add: odm_iff)

lemma odm_moveSteering [simp]:
  "only_drive_motors r w w' \<Longrightarrow> only_drive_motors r w (moveSteering r a b w')"
  by (simp add: moveSteering_def odm_send)

lemma odm_stop [simp]:
  "only_drive_motors r w w' \<Longrightarrow> only_drive_motors r w (stop r b w')"
  by (simp add: stop_def odm_send)

lemma odm_reset [simp]:
  "only_drive_motors r w w' \<Longrightarrow> only_drive_motors r w (send (ResetAngle (rightMotor r) v) w')"
  by (simp add: odm_send)

lemma odm_waitForWhite:
  "only_drive_motors r w w' \<Longrightarrow> only_drive_motors r w (snd (waitForWhite fuel e s w'))"
  by (induction fuel arbitrary: w') (simp_all add: case_prod_beta)

lemma odm_waitForBlack:
  "only_drive_motors r w w' \<Longrightarrow> only_drive_motors r w (snd (waitForBlack fuel e s w'))"
  by (induction fuel arbitrary: w') (simp_all add: case_prod_beta)

lemma odm_waitForLine:
  "only_drive_motors r w w' \<Longrightarrow> only_drive_motors r w (snd (waitForLine fuel e s w'))"
  by (simp add: waitForLine_def case_prod_beta odm_waitForWhite odm_waitForBlack
      split: status.splits del: waitForWhite.simps waitForBlack.simps)

lemma odm_track_high:
  "only_drive_motors r w (snd (track_high e s h w')) = only_drive_motors r w w'"
  by (simp add: track_high_def case_prod_beta)

lemma odm_track_low:
  "only_drive_motors r w (snd (track_low e s h w')) = only_drive_motors r w w'"
  by (simp add: track_low_def case_prod_beta)

lemma odm_calibrate_body:
  "only_drive_motors r w (snd (calibrate_body e r sp w')) = only_drive_motors r w w'"
  by (simp add: calibrate_body_def case_prod_beta odm_track_high odm_track_low)

lemma odm_calibrate_loop:
  "only_drive_motors r w w' \<Longrightarrow> only_drive_motors r w (snd (snd (calibrate_loop fuel e r sp w')))"
  by (induction fuel arbitrary: w' sp) (simp_all add: case_prod_beta odm_calibrate_body)

lemma odm_calibrate:
  "only_drive_motors r w w' \<Longrightarrow> only_drive_motors r w (snd (calibrate fuel e r w'))"
  by (simp add: calibrate_def case_prod_beta odm_calibrate_loop split: status.splits
      del: calibrate_loop.simps)

lemma odm_drive_loop:
  "only_drive_motors r w w' \<Longrightarrow>
   only_drive_motors r w (snd (drive_loop fuel e r sd rot speed time k w'))"
  by (induction fuel arbitrary: w') (simp_all add: case_prod_beta Let_def)

lemma odm_drive:
  "only_drive_motors r w w' \<Longrightarrow> only_drive_motors r w (snd (drive fuel e r d speed time k w'))"
  by (simp add: drive_def case_prod_beta Let_def odm_drive_loop split: status.splits
      del: drive_loop.simps)

lemma odm_turn_loop:
  "only_drive_motors r w w' \<Longrightarrow>
   only_drive_motors r w (snd (turn_loop fuel e r angle speed time w'))"
  by (induction fuel arbitrary: w') (simp_all add: case_prod_beta Let_def)

lemma odm_turn:
  "only_drive_motors r w w' \<Longrightarrow> only_drive_motors r w (snd (turn fuel e r angle speed time w'))"
  by (simp add: turn_def case_prod_beta odm_turn_loop split: status.splits
      del: turn_loop.simps)

lemma odm_lineFollow2Line_loop:
  "only_drive_motors r w w' \<Longrightarrow>
   only_drive_motors r w (snd (snd (lineFollow2Line_loop fuel e r fs ss k speed le w')))"
  by (induction fuel arbitrary: w' le) (simp_all add: case_prod_beta lineFollow2Line_body_def)

lemma odm_lineFollow2Line:
  "only_drive_motors r w w' \<Longrightarrow>
   only_drive_motors r w (snd (lineFollow2Line fuel e r speed rightSide useRightSensor w'))"
  by (simp add: lineFollow2Line_def case_prod_beta Let_def odm_lineFollow2Line_loop
      split: status.splits del: lineFollow2Line_loop.simps)

lemma odm_lineFollow4Time_loop:
  "only_drive_motors r w w' \<Longrightarrow>
   only_drive_motors r w (snd (snd (lineFollow4Time_loop fuel e r fs k speed time le w')))"
  by (induction fuel arbitrary: w' le) (simp_all add: case_prod_beta lineFollow4Time_body_def)

lemma odm_lineFollow4Time:
  "only_drive_motors r w w' \<Longrightarrow>
   only_drive_motors r w (snd (lineFollow4Time fuel e r speed time rightSide useRightSensor w'))"
  by (simp add: lineFollow4Time_def case_prod_beta Let_def odm_lineFollow4Time_loop
      split: status.splits del: lineFollow4Time_loop.simps)

lemma odm_turn2Line:
  "only_drive_motors r w w' \<Longrightarrow>
   only_drive_motors r w (snd (turn2Line fuel e r speed useRightSensor time w'))"
  by (simp add: turn2Line_def case_prod_beta Let_def odm_waitForLine split: status.splits)

lemma odm_drive2Line:
  "only_drive_motors r w w' \<Longrightarrow>
   only_drive_motors r w (snd (drive2Line fuel e r speed distanceBefore distanceAfter useRightSensor w'))"
  by (simp add: drive2Line_def case_prod_beta Let_def odm_waitForLine odm_drive split: status.splits)

lemma odm_untouched:
  assumes "only_drive_motors r w w'"
    and "frontMotor r \<noteq> leftMotor r" "frontMotor r \<noteq> rightMotor r"
    and "rearMotor r \<noteq> leftMotor r" "rearMotor r \<noteq> rightMotor r"
  shows "front_rear_untouched r w w'"
proof -
  from assms(1) obtain cs where l: "cmd_log w' = cmd_log w @ cs"
    and a: "list_all (\<lambda>c. cmd_port c = leftMotor r \<or> cmd_port c = rightMotor r) cs"
    by (auto simp add: odm_iff)
  have "filter (\<lambda>c. cmd_port c = frontMotor r) cs = []"
    using a assms(2,3) by (auto simp add: list_all_iff filter_empty_conv)
  moreover have "filter (\<lambda>c. cmd_port c = rearMotor r) cs = []"
    using a assms(4,5) by (auto simp add: list_all_iff filter_empty_conv)
  ultimately show ?thesis
    by (simp add: front_rear_untouched_def cmds_of_def l)
qed


lemma Robot_init_motors [simp]:
  "frontMotor (fst (Robot_init e w)) = Port_D"
  "rearMotor (fst (Robot_init e w)) = Port_A"
  "leftMotor (fst (Robot_init e w)) = Port_C"
  "rightMotor (fst (Robot_init e w)) = Port_B"
  by (simp_all add: Robot_init_def case_prod_beta Let_def)

section \<open>The calibration loop\<close>

text \<open>
  Each of the four \<open>if\<close> statements of the loop body polls its sensor for the test
  and, when the test holds, polls it again for the value it stores. The loop finishes
  at the first clock reading of 5000 ms or more, and a finished \<open>calibrate\<close> writes
  the loop's final bounds to the file.
\<close>

lemma track_high_simps [simp]:
  "fst (track_high e s h w) =
     (if light_at e (sensor_port s) (rgb_n w (sensor_port s)) > h
      then light_at e (sensor_port s) (Suc (rgb_n w (sensor_port s))) else h)"
  "rgb_n (snd (track_high e s h w)) =
     (rgb_n w)(sensor_port s :=
        (if light_at e (sensor_port s) (rgb_n w (sensor_port s)) > h
         then Suc (Suc (rgb_n w (sensor_port s))) else Suc (rgb_n w (sensor_port s))))"
  "clock_n (snd (track_high e s h w)) = clock_n w"
  "gyro_n (snd (track_high e s h w)) = gyro_n w"
  "cmd_log (snd (track_high e s h w)) = cmd_log w"
  by (simp_all add: track_high_def case_prod_beta)

lemma track_low_simps [simp]:
  "fst (track_low e s l w) =
     (if light_at e (sensor_port s) (rgb_n w (sensor_port s)) < l
      then light_at e (sensor_port s) (Suc (rgb_n w (sensor_port s))) else l)"
  "rgb_n (snd (track_low e s l w)) =
     (rgb_n w)(sensor_port s :=
        (if light_at e (sensor_port s) (rgb_n w (sensor_port s)) < l
         then Suc (Suc (rgb_n w (sensor_port s))) else Suc (rgb_n w (sensor_port s))))"
  "clock_n (snd (track_low e s l w)) = clock_n w"
  "gyro_n (snd (track_low e s l w)) = gyro_n w"
  "cmd_log (snd (track_low e s l w)) = cmd_log w"
  by (simp_all add: track_low_def case_prod_beta)

lemma calibrate_body_clock [simp]:
  "clock_n (snd (calibrate_body e r sp w)) = clock_n w"
  by (simp add: calibrate_body_def case_prod_beta)

lemma calibrate_loop_finishes:
  "clock_readings e (clock_n w + n) \<ge> 5000 \<Longrightarrow>
   fst (calibrate_loop (Suc (n + extra)) e r sp w) = Finished"
proof (induction n arbitrary: w sp)
  case 0
  then show ?case by (simp add: case_prod_beta)
next
  case (Suc n)
  have "clock_readings e (clock_n (snd (calibrate_body e r sp (snd (timer_time e w)))) + n) \<ge> 5000"
    using Suc.prems by simp
  then have "fst (calibrate_loop (Suc (n + extra)) e r
                 (fst (calibrate_body e r sp (snd (timer_time e w))))
                 (snd (calibrate_body e r sp (snd (timer_time e w))))) = Finished"
    by (rule Suc.IH)
  then show ?case
    by (simp add: case_prod_beta del: calibrate_loop.simps(2)
        add: calibrate_loop.simps(2)[of "Suc (n + extra)" e r sp w])
qed

lemma calibrate_persists:
  "fst (calibrate_loop fuel e r \<lparr>leftLow = 70, rightLow = 70, leftHigh = 40, rightHigh = 40\<rparr>
          (moveSteering r 0 125 w)) = Finished \<Longrightarrow>
   fst (calibrate fuel e r w) = Finished
   \<and> sensorpoints_file (snd (calibrate fuel e r w)) =
       Some (fst (snd (calibrate_loop fuel e r
          \<lparr>leftLow = 70, rightLow = 70, leftHigh = 40, rightHigh = 40\<rparr> (moveSteering r 0 125 w))))"
  by (cases "calibrate_loop fuel e r \<lparr>leftLow = 70, rightLow = 70, leftHigh = 40, rightHigh = 40\<rparr>
          (moveSteering r 0 125 w)") (simp add: calibrate_def del: calibrate_loop.simps)

text \<open>Readings 30, 90, 30, 90, ... : every test for a new high sees 30, every test for a new low sees 90.\<close>

lemma body_in_phase:
  assumes "even (rgb_n w Port_S2)" "even (rgb_n w Port_S3)"
  shows "fst (calibrate_body (bench g c a (\<lambda>k. if even k then 30 else 90))
            (fst (Robot_init e0 world0))
            \<lparr>leftLow = 70, rightLow = 70, leftHigh = 40, rightHigh = 40\<rparr> w)
         = \<lparr>leftLow = 70, rightLow = 70, leftHigh = 40, rightHigh = 40\<rparr>
       \<and> even (rgb_n (snd (calibrate_body (bench g c a (\<lambda>k. if even k then 30 else 90))
            (fst (Robot_init e0 world0))
            \<lparr>leftLow = 70, rightLow = 70, leftHigh = 40, rightHigh = 40\<rparr> w)) Port_S2)
       \<and> even (rgb_n (snd (calibrate_body (bench g c a (\<lambda>k. if even k then 30 else 90))
            (fst (Robot_init e0 world0))
            \<lparr>leftLow = 70, rightLow = 70, leftHigh = 40, rightHigh = 40\<rparr> w)) Port_S3)"
  using assms by (simp add: calibrate_body_def case_prod_beta)

lemma loop_in_phase:
  "even (rgb_n w Port_S2) \<Longrightarrow> even (rgb_n w Port_S3) \<Longrightarrow>
   fst (snd (calibrate_loop fuel (bench g c a (\<lambda>k. if even k then 30 else 90))
            (fst (Robot_init e0 world0))
            \<lparr>leftLow = 70, rightLow = 70, leftHigh = 40, rightHigh = 40\<rparr> w))
   = \<lparr>leftLow = 70, rightLow = 70, leftHigh = 40, rightHigh = 40\<rparr>"
proof (induction fuel arbitrary: w)
  case 0
  then show ?case by simp
next
  case (Suc fuel)
  let ?e = "bench g c a (\<lambda>k. if even k then 30 else 90)"
  let ?r = "fst (Robot_init e0 world0)"
  let ?sp = "\<lparr>leftLow = 70, rightLow = 70, leftHigh = 40, rightHigh = 40\<rparr>"
  let ?w0 = "snd (timer_time ?e w)"
  have e: "even (rgb_n ?w0 Port_S2)" "even (rgb_n ?w0 Port_S3)" using Suc.prems by simp_all
  have b: "fst (calibrate_body ?e ?r ?sp ?w0) = ?sp
       \<and> even (rgb_n (snd (calibrate_body ?e ?r ?sp ?w0)) Port_S2)
       \<and> even (rgb_n (snd (calibrate_body ?e ?r ?sp ?w0)) Port_S3)"
    using e by (rule body_in_phase)
  then have "fst (snd (calibrate_loop fuel ?e ?r ?sp (snd (calibrate_body ?e ?r ?sp ?w0)))) = ?sp"
    by (intro Suc.IH) simp_all
  then show ?case using b by (simp add: case_prod_beta del: Robot_init_world0)
qed


text \<open>Readings 90, 30, 90, 30, ... : the first test for a new high sees 90 and stores the next reading, 30.\<close>

lemma body_first_pass:
  assumes "even (rgb_n w Port_S2)" "even (rgb_n w Port_S3)"
  shows "fst (calibrate_body (bench g c a (\<lambda>k. if even k then 90 else 30))
            (fst (Robot_init e0 world0))
            \<lparr>leftLow = 70, rightLow = 70, leftHigh = 40, rightHigh = 40\<rparr> w)
         = \<lparr>leftLow = 70, rightLow = 70, leftHigh = 30, rightHigh = 30\<rparr>
       \<and> odd (rgb_n (snd (calibrate_body (bench g c a (\<lambda>k. if even k then 90 else 30))
            (fst (Robot_init e0 world0))
            \<lparr>leftLow = 70, rightLow = 70, leftHigh = 40, rightHigh = 40\<rparr> w)) Port_S2)
       \<and> odd (rgb_n (snd (calibrate_body (bench g c a (\<lambda>k. if even k then 90 else 30))
            (fst (Robot_init e0 world0))
            \<lparr>leftLow = 70, rightLow = 70, leftHigh = 40, rightHigh = 40\<rparr> w)) Port_S3)"
  using assms by (simp add: calibrate_body_def case_prod_beta)

lemma body_out_of_phase:
  assumes "odd (rgb_n w Port_S2)" "odd (rgb_n w Port_S3)"
  shows "fst (calibrate_body (bench g c a (\<lambda>k. if even k then 90 else 30))
            (fst (Robot_init e0 world0))
            \<lparr>leftLow = 70, rightLow = 70, leftHigh = 30, rightHigh = 30\<rparr> w)
         = \<lparr>leftLow = 70, rightLow = 70, leftHigh = 30, rightHigh = 30\<rparr>
       \<and> odd (rgb_n (snd (calibrate_body (bench g c a (\<lambda>k. if even k then 90 else 30))
            (fst (Robot_init e0 world0))
            \<lparr>leftLow = 70, rightLow = 70, leftHigh = 30, rightHigh = 30\<rparr> w)) Port_S2)
       \<and> odd (rgb_n (snd (calibrate_body (bench g c a (\<lambda>k. if even k then 90 else 30))
            (fst (Robot_init e0 world0))
            \<lparr>leftLow = 70, rightLow = 70, leftHigh = 30, rightHigh = 30\<rparr> w)) Port_S3)"
  using assms by (simp add: calibrate_body_def case_prod_beta)

lemma loop_out_of_phase:
  "odd (rgb_n w Port_S2) \<Longrightarrow> odd (rgb_n w Port_S3) \<Longrightarrow>
   fst (snd (calibrate_loop fuel (bench g c a (\<lambda>k. if even k then 90 else 30))
            (fst (Robot_init e0 world0))
            \<lparr>leftLow = 70, rightLow = 70, leftHigh = 30, rightHigh = 30\<rparr> w))
   = \<lparr>leftLow = 70, rightLow = 70, leftHigh = 30, rightHigh = 30\<rparr>"
proof (induction fuel arbitrary: w)
  case 0
  then show ?case by simp
next
  case (Suc fuel)
  let ?e = "bench g c a (\<lambda>k. if even k then 90 else 30)"
  let ?r = "fst (Robot_init e0 world0)"
  let ?sp = "\<lparr>leftLow = 70, rightLow = 70, leftHigh = 30, rightHigh = 30\<rparr>"
  let ?w0 = "snd (timer_time ?e w)"
  have e: "odd (rgb_n ?w0 Port_S2)" "odd (rgb_n ?w0 Port_S3)" using Suc.prems by simp_all
  have b: "fst (calibrate_body ?e ?r ?sp ?w0) = ?sp
       \<and> odd (rgb_n (snd (calibrate_body ?e ?r ?sp ?w0)) Port_S2)
       \<and> odd (rgb_n (snd (calibrate_body ?e ?r ?sp ?w0)) Port_S3)"
    using e by (rule body_out_of_phase)
  then have "fst (snd (calibrate_loop fuel ?e ?r ?sp (snd (calibrate_body ?e ?r ?sp ?w0)))) = ?sp"
    by (intro Suc.IH) simp_all
  then show ?case using b by (simp add: case_prod_beta del: Robot_init_world0)
qed

lemma loop_stores_later_reading:
  assumes "even (rgb_n w Port_S2)" "even (rgb_n w Port_S3)" "c (clock_n w) < 5000"
  shows "fst (snd (calibrate_loop (Suc fuel) (bench g c a (\<lambda>k. if even k then 90 else 30))
            (fst (Robot_init e0 world0))
            \<lparr>leftLow = 70, rightLow = 70, leftHigh = 40, rightHigh = 40\<rparr> w))
   = \<lparr>leftLow = 70, rightLow = 70, leftHigh = 30, rightHigh = 30\<rparr>"
proof -
  let ?e = "bench g c a (\<lambda>k. if even k then 90 else 30)"
  let ?r = "fst (Robot_init e0 world0)"
  let ?sp = "\<lparr>leftLow = 70, rightLow = 70, leftHigh = 40, rightHigh = 40\<rparr>"
  let ?sp' = "\<lparr>leftLow = 70, rightLow = 70, leftHigh = 30, rightHigh = 30\<rparr>"
  let ?w0 = "snd (timer_time ?e w)"
  have e: "even (rgb_n ?w0 Port_S2)" "even (rgb_n ?w0 Port_S3)" using assms by simp_all
  have b: "fst (calibrate_body ?e ?r ?sp ?w0) = ?sp'
       \<and> odd (rgb_n (snd (calibrate_body ?e ?r ?sp ?w0)) Port_S2)
       \<and> odd (rgb_n (snd (calibrate_body ?e ?r ?sp ?w0)) Port_S3)"
    using e by (rule body_first_pass)
  then have "fst (snd (calibrate_loop fuel ?e ?r ?sp' (snd (calibrate_body ?e ?r ?sp ?w0)))) = ?sp'"
    by (intro loop_out_of_phase) simp_all
  then show ?thesis using b assms(3) by (simp add: case_prod_beta del: Robot_init_world0)
qed

section \<open>The claims\<close>

subsection \<open>Thresholds of a light sensor\<close>

text \<open>
  Claim C4. For all bounds with \<open>low < high\<close>, the constructor of \<open>LightSensor\<close> sets
  \<open>black = low + 0.25 (high - low)\<close>, \<open>line = low + 0.5 (high - low)\<close> and
  \<open>white = low + 0.8 (high - low)\<close>, and \<open>low \<le> black \<le> line \<le> white \<le> high\<close>.
\<close>

theorem LightSensor_init_thresholds:
  assumes "low < high"
  shows "black (LightSensor_init p low high) = low + 0.25 * (high - low)
       \<and> line (LightSensor_init p low high) = low + 0.5 * (high - low)
       \<and> white (LightSensor_init p low high) = low + 0.8 * (high - low)
       \<and> low \<le> black (LightSensor_init p low high)
       \<and> black (LightSensor_init p low high) \<le> line (LightSensor_init p low high)
       \<and> line (LightSensor_init p low high) \<le> white (LightSensor_init p low high)
       \<and> white (LightSensor_init p low high) \<le> high"
proof -
  have "0 < high - low" using assms by simp
  then show ?thesis by (simp add: LightSensor_init_def field_simps)
qed

theorem LightSensor_init_thresholds_witness:
  "(10::real) < 120
   \<and> black (LightSensor_init Port_S3 10 120) = 37.5
   \<and> line (LightSensor_init Port_S3 10 120) = 65
   \<and> white (LightSensor_init Port_S3 10 120) = 98
   \<and> 10 \<le> black (LightSensor_init Port_S3 10 120)
   \<and> black (LightSensor_init Port_S3 10 120) \<le> line (LightSensor_init Port_S3 10 120)
   \<and> line (LightSensor_init Port_S3 10 120) \<le> white (LightSensor_init Port_S3 10 120)
   \<and> white (LightSensor_init Port_S3 10 120) \<le> 120"
  using LightSensor_init_thresholds [of 10 120 Port_S3] by simp

subsection \<open>The steering primitive\<close>

text \<open>
  Claim C3, as stated: for every \<open>steering > 0\<close> and every base speed \<open>s\<close>, the left
  speed is at least the right speed and neither exceeds \<open>|s|\<close> in magnitude. It fails
  twice: with a negative base speed the attenuated right wheel is the larger number
  (steering 10, speed -100: left -100, right -80), and beyond steering 100 the right
  factor \<open>1 - 0.02 steering\<close> drops below -1 (steering 200, speed 100: right -300).
\<close>

theorem moveSteering_claim_counterexample:
  "\<not> (leftMotorSpeed 10 (- 100) \<ge> rightMotorSpeed 10 (- 100))
   \<and> \<not> (\<bar>rightMotorSpeed 200 100\<bar> \<le> \<bar>100\<bar>)"
  by (simp add: leftMotorSpeed_def rightMotorSpeed_def)

text \<open>
  Claim C3, amended. For every \<open>steering > 0\<close>, \<open>moveSteering\<close> runs the left motor at
  exactly \<open>s\<close> and then the right motor at \<open>s (1 - 0.02 steering)\<close>; the left speed is
  at least the right speed when \<open>s \<ge> 0\<close>, and neither speed exceeds \<open>|s|\<close> in magnitude
  when \<open>steering \<le> 100\<close>.
\<close>

theorem moveSteering_right_turn:
  assumes "0 < steering"
  shows "cmd_log (moveSteering r steering s w) =
           cmd_log w @ [Run (leftMotor r) (leftMotorSpeed steering s),
                        Run (rightMotor r) (rightMotorSpeed steering s)]
       \<and> leftMotorSpeed steering s = s
       \<and> rightMotorSpeed steering s = s * (1 - 0.02 * steering)
       \<and> (0 \<le> s \<longrightarrow> leftMotorSpeed steering s \<ge> rightMotorSpeed steering s)
       \<and> (steering \<le> 100 \<longrightarrow>
            \<bar>leftMotorSpeed steering s\<bar> \<le> \<bar>s\<bar> \<and> \<bar>rightMotorSpeed steering s\<bar> \<le> \<bar>s\<bar>)"
proof -
  have l: "leftMotorSpeed steering s = s"
    using assms by (simp add: leftMotorSpeed_def min_def)
  have f: "min 1 (- 0.02 * steering + 1) = 1 - 0.02 * steering"
    using assms by (simp add: min_def)
  have rs: "rightMotorSpeed steering s = s * (1 - 0.02 * steering)"
    unfolding rightMotorSpeed_def f by (rule refl)
  have r1: "0 \<le> s \<Longrightarrow> rightMotorSpeed steering s \<le> s"
  proof -
    assume "0 \<le> s"
    then have "s * (1 - 0.02 * steering) \<le> s * 1"
      using assms by (intro mult_left_mono) simp_all
    then show ?thesis by (simp add: rightMotorSpeed_def f)
  qed
  have r2: "steering \<le> 100 \<Longrightarrow> \<bar>rightMotorSpeed steering s\<bar> \<le> \<bar>s\<bar>"
  proof -
    assume "steering \<le> 100"
    then have "\<bar>1 - 0.02 * steering\<bar> \<le> 1" using assms by simp
    then have "\<bar>s\<bar> * \<bar>1 - 0.02 * steering\<bar> \<le> \<bar>s\<bar> * 1"
      by (intro mult_left_mono) simp_all
    then show ?thesis by (simp add: rightMotorSpeed_def f abs_mult)
  qed
  have lg: "cmd_log (moveSteering r steering s w) =
           cmd_log w @ [Run (leftMotor r) (leftMotorSpeed steering s),
                        Run (rightMotor r) (rightMotorSpeed steering s)]"
    by (simp add: moveSteering_def send_def)
  show ?thesis using l r1 r2 by (intro conjI impI) (simp_all add: lg rs)
qed

theorem moveSteering_right_turn_witness:
  "(0::real) < 25 \<and> (0::real) \<le> 100 \<and> (25::real) \<le> 100
   \<and> leftMotorSpeed 25 100 = 100 \<and> rightMotorSpeed 25 100 = 50
   \<and> leftMotorSpeed 25 100 \<ge> rightMotorSpeed 25 100
   \<and> \<bar>leftMotorSpeed 25 100\<bar> \<le> \<bar>100\<bar> \<and> \<bar>rightMotorSpeed 25 100\<bar> \<le> \<bar>100\<bar>"
  using moveSteering_right_turn [of 25 r 100 w] by simp

subsection \<open>The control law of the two line followers\<close>

text \<open>
  Claim C1, as stated: both line followers issue the identical steering command, with
  derivative term \<open>1.2 (previousError - error)\<close>. The source gives \<open>lineFollow2Line\<close>
  the derivative gain 1.25 and \<open>lineFollow4Time\<close> the gain 1.2 (its comment: "Used to
  be 1.25"), so on line 50, reading 60 and previous error 0 the two commands differ.
\<close>

theorem lineFollow_same_law_counterexample:
  "\<not> (lineFollow2Line_steering 50 60 0 1 = lineFollow4Time_steering 50 60 0 1)"
  by (simp add: lineFollow2Line_steering_def lineFollow4Time_steering_def)

text \<open>
  Claim C1, amended. One pass of either loop body reads the follow sensor once, makes
  \<open>error = line - reading\<close> the next \<open>lastError\<close> and calls \<open>moveSteering\<close> with
  \<open>(0.25 error - kd (lastError - error)) kSide\<close>, where \<open>kd\<close> is 1.25 in
  \<open>lineFollow2Line\<close> and 1.2 in \<open>lineFollow4Time\<close>; the two steering values differ by
  \<open>0.05 (lastError - error) kSide\<close>.
\<close>

theorem lineFollow_control_laws:
  "lineFollow2Line_body e r fs k speed lastError w =
     (line fs - fst (light e fs w),
      moveSteering r (lineFollow2Line_steering (line fs) (fst (light e fs w)) lastError k) speed
        (snd (light e fs w)))
   \<and> lineFollow4Time_body e r fs k speed lastError w =
     (line fs - fst (light e fs w),
      moveSteering r (lineFollow4Time_steering (line fs) (fst (light e fs w)) lastError k) speed
        (snd (light e fs w)))
   \<and> lineFollow2Line_steering lv reading lastError k
       = (0.25 * (lv - reading) - 1.25 * (lastError - (lv - reading))) * k
   \<and> lineFollow4Time_steering lv reading lastError k
       = (0.25 * (lv - reading) - 1.2 * (lastError - (lv - reading))) * k
   \<and> lineFollow4Time_steering lv reading lastError k - lineFollow2Line_steering lv reading lastError k
       = 0.05 * (lastError - (lv - reading)) * k"
proof -
  have b2: "lineFollow2Line_body e r fs k speed lastError w =
     (line fs - fst (light e fs w),
      moveSteering r (lineFollow2Line_steering (line fs) (fst (light e fs w)) lastError k) speed
        (snd (light e fs w)))"
    by (simp add: lineFollow2Line_body_def case_prod_beta)
  have b4: "lineFollow4Time_body e r fs k speed lastError w =
     (line fs - fst (light e fs w),
      moveSteering r (lineFollow4Time_steering (line fs) (fst (light e fs w)) lastError k) speed
        (snd (light e fs w)))"
    by (simp add: lineFollow4Time_body_def case_prod_beta)
  have s2: "lineFollow2Line_steering lv reading lastError k
       = (0.25 * (lv - reading) - 1.25 * (lastError - (lv - reading))) * k"
    by (simp add: lineFollow2Line_steering_def Let_def)
  have s4: "lineFollow4Time_steering lv reading lastError k
       = (0.25 * (lv - reading) - 1.2 * (lastError - (lv - reading))) * k"
    by (simp add: lineFollow4Time_steering_def Let_def)
  have d: "lineFollow4Time_steering lv reading lastError k - lineFollow2Line_steering lv reading lastError k
       = 0.05 * (lastError - (lv - reading)) * k"
    unfolding s2 s4 by (simp add: field_simps)
  show ?thesis
    by (intro conjI) (rule b2 b4 s2 s4 d)+
qed

subsection \<open>Driving a distance of zero\<close>

text \<open>
  Claim C2, as stated: \<open>drive(0, speed)\<close> is a no-op that issues no motor commands.
  The source has no guard for a zero distance: it resets the right motor's angle before
  the loop and stops both motors after it, whatever the distance.
\<close>

theorem drive_zero_no_commands_counterexample:
  "\<not> (cmd_log (snd (drive 1 (bench (\<lambda>k. 0) (\<lambda>k. 0) (\<lambda>k. 0) (\<lambda>k. 0))
         (fst (Robot_init (bench (\<lambda>k. 0) (\<lambda>k. 0) (\<lambda>k. 0) (\<lambda>k. 0)) world0)) 0 200 20 1 world0))
       = cmd_log world0)"
  by (simp add: drive_def Robot_init_def world0_def bench_def case_prod_beta)

text \<open>
  Claim C2, amended. For every speed, \<open>drive(0, speed)\<close> returns after the first
  evaluation of its loop condition: the loop body never runs, so the division by the
  rotation target is not reached and no motor is told to run; the only commands are the
  reset of the right motor's angle and the final stop of both drive motors with HOLD,
  after one read each of the gyro, the right motor's angle and the clock.
\<close>

theorem drive_zero_distance:
  "fst (drive (Suc fuel) e r 0 speed time kSteering w) = Finished
   \<and> cmd_log (snd (drive (Suc fuel) e r 0 speed time kSteering w)) =
       cmd_log w @ [ResetAngle (rightMotor r) 0, StopCmd (rightMotor r) HOLD, StopCmd (leftMotor r) HOLD]
   \<and> gyro_n (snd (drive (Suc fuel) e r 0 speed time kSteering w)) = Suc (gyro_n w)
   \<and> clock_n (snd (drive (Suc fuel) e r 0 speed time kSteering w)) = Suc (clock_n w)
   \<and> angle_n (snd (drive (Suc fuel) e r 0 speed time kSteering w)) =
       (angle_n w)(rightMotor r := Suc (angle_n w (rightMotor r)))
   \<and> filter is_run (cmd_log (snd (drive (Suc fuel) e r 0 speed time kSteering w)))
       = filter is_run (cmd_log w)"
  by (simp add: drive_def case_prod_beta)

subsection \<open>Driving against the clock\<close>

text \<open>
  Claim C7. For every distance \<open>d > 0\<close> (and every speed), \<open>drive\<close> returns once the
  time limit has passed, whatever the motor angle does: if the clock reading of the
  loop's n-th check (counted from 0) is at or beyond \<open>time * 1000\<close> milliseconds, the
  call finishes normally after at most \<open>n + 1\<close> checks, without a division error.
\<close>

theorem drive_timeout_dominates:
  assumes "0 < d" and "clock_readings e (clock_n w + n) \<ge> time * 1000"
  shows "fst (drive (Suc (n + extra)) e r d speed time k w) = Finished
       \<and> clock_n (snd (drive (Suc (n + extra)) e r d speed time k w)) \<le> clock_n w + Suc n"
proof -
  let ?w1 = "send (ResetAngle (rightMotor r) 0) (snd (gyro_angle e w))"
  have rot: "d * 51.9 \<noteq> 0" using assms(1) by simp
  have "clock_readings e (clock_n ?w1 + n) \<ge> time * 1000" using assms(2) by simp
  with rot have l: "fst (drive_loop (Suc (n + extra)) e r (fst (gyro_angle e w)) (d * 51.9) speed time k ?w1) = Finished
   \<and> clock_n (snd (drive_loop (Suc (n + extra)) e r (fst (gyro_angle e w)) (d * 51.9) speed time k ?w1)) \<le> clock_n ?w1 + Suc n"
    by (rule drive_loop_timeout)
  have nn: "\<not> d < 0" using assms(1) by simp
  obtain st w2 where dl: "drive_loop (Suc (n + extra)) e r (fst (gyro_angle e w)) (d * 51.9) speed time k ?w1 = (st, w2)"
    by (cases "drive_loop (Suc (n + extra)) e r (fst (gyro_angle e w)) (d * 51.9) speed time k ?w1")
  from l dl have st: "st = Finished" and cl: "clock_n w2 \<le> clock_n w + Suc n" by simp_all
  have "drive (Suc (n + extra)) e r d speed time k w = (Finished, stop r HOLD w2)"
    using nn dl st by (simp add: drive_def case_prod_beta Let_def del: drive_loop.simps)
  then show ?thesis using cl by simp
qed

theorem drive_timeout_dominates_witness:
  "(0::real) < 10
   \<and> fst (drive (Suc (20 + 0)) (bench (\<lambda>k. 0) (\<lambda>k. 1000 * real k) (\<lambda>k. 0) (\<lambda>k. 0))
        (fst (Robot_init (bench (\<lambda>k. 0) (\<lambda>k. 1000 * real k) (\<lambda>k. 0) (\<lambda>k. 0)) world0))
        10 200 20 1 world0) = Finished
   \<and> clock_n (snd (drive (Suc (20 + 0)) (bench (\<lambda>k. 0) (\<lambda>k. 1000 * real k) (\<lambda>k. 0) (\<lambda>k. 0))
        (fst (Robot_init (bench (\<lambda>k. 0) (\<lambda>k. 1000 * real k) (\<lambda>k. 0) (\<lambda>k. 0)) world0))
        10 200 20 1 world0)) \<le> 21"
  using drive_timeout_dominates [where d = 10 and e = "bench (\<lambda>k. 0) (\<lambda>k. 1000 * real k) (\<lambda>k. 0) (\<lambda>k. 0)"
       and w = world0 and n = 20 and time = 20 and extra = 0 and speed = 200 and k = 1
       and r = "fst (Robot_init (bench (\<lambda>k. 0) (\<lambda>k. 1000 * real k) (\<lambda>k. 0) (\<lambda>k. 0)) world0)"]
  by simp

subsection \<open>The blocking waits\<close>

text \<open>
  Claim C8. \<open>waitForWhite\<close> returns at the first reading with \<open>light \<ge> white\<close> and
  \<open>waitForBlack\<close> at the first reading with \<open>light \<le> black\<close>, having polled the
  sensor exactly up to that reading; before such a reading each is still running, and
  when no reading ever qualifies it is still running after any number of polls: there
  is no timeout.
\<close>

theorem wait_loops_return_at_first_match:
  "((\<forall>i<k. light_at e (sensor_port s) (rgb_n w (sensor_port s) + i) < white s)
      \<and> light_at e (sensor_port s) (rgb_n w (sensor_port s) + k) \<ge> white s
     \<longrightarrow> fst (waitForWhite (Suc (k + extra)) e s w) = Finished
         \<and> rgb_n (snd (waitForWhite (Suc (k + extra)) e s w)) (sensor_port s)
             = rgb_n w (sensor_port s) + Suc k)
   \<and> ((\<forall>i<fuel. light_at e (sensor_port s) (rgb_n w (sensor_port s) + i) < white s)
     \<longrightarrow> fst (waitForWhite fuel e s w) = StillRunning)
   \<and> ((\<forall>i. light_at e (sensor_port s) (rgb_n w (sensor_port s) + i) < white s)
     \<longrightarrow> (\<forall>n. fst (waitForWhite n e s w) = StillRunning))
   \<and> ((\<forall>i<k. light_at e (sensor_port s) (rgb_n w (sensor_port s) + i) > black s)
      \<and> light_at e (sensor_port s) (rgb_n w (sensor_port s) + k) \<le> black s
     \<longrightarrow> fst (waitForBlack (Suc (k + extra)) e s w) = Finished
         \<and> rgb_n (snd (waitForBlack (Suc (k + extra)) e s w)) (sensor_port s)
             = rgb_n w (sensor_port s) + Suc k)
   \<and> ((\<forall>i<fuel. light_at e (sensor_port s) (rgb_n w (sensor_port s) + i) > black s)
     \<longrightarrow> fst (waitForBlack fuel e s w) = StillRunning)
   \<and> ((\<forall>i. light_at e (sensor_port s) (rgb_n w (sensor_port s) + i) > black s)
     \<longrightarrow> (\<forall>n. fst (waitForBlack n e s w) = StillRunning))"
proof (intro conjI impI allI)
  assume "(\<forall>i<k. light_at e (sensor_port s) (rgb_n w (sensor_port s) + i) < white s)
      \<and> light_at e (sensor_port s) (rgb_n w (sensor_port s) + k) \<ge> white s"
  then have r: "fst (waitForWhite (Suc (k + extra)) e s w) = Finished
         \<and> rgb_n (snd (waitForWhite (Suc (k + extra)) e s w)) (sensor_port s)
             = rgb_n w (sensor_port s) + Suc k"
    by (simp add: waitForWhite_returns del: waitForWhite.simps)
  from r show "fst (waitForWhite (Suc (k + extra)) e s w) = Finished" by (rule conjunct1)
  from r show "rgb_n (snd (waitForWhite (Suc (k + extra)) e s w)) (sensor_port s)
             = rgb_n w (sensor_port s) + Suc k" by (rule conjunct2)
next
  assume "\<forall>i<fuel. light_at e (sensor_port s) (rgb_n w (sensor_port s) + i) < white s"
  then show "fst (waitForWhite fuel e s w) = StillRunning"
    by (simp add: waitForWhite_blocks)
next
  fix n
  assume "\<forall>i. light_at e (sensor_port s) (rgb_n w (sensor_port s) + i) < white s"
  then show "fst (waitForWhite n e s w) = StillRunning"
    by (simp add: waitForWhite_blocks)
next
  assume "(\<forall>i<k. light_at e (sensor_port s) (rgb_n w (sensor_port s) + i) > black s)
      \<and> light_at e (sensor_port s) (rgb_n w (sensor_port s) + k) \<le> black s"
  then have r: "fst (waitForBlack (Suc (k + extra)) e s w) = Finished
         \<and> rgb_n (snd (waitForBlack (Suc (k + extra)) e s w)) (sensor_port s)
             = rgb_n w (sensor_port s) + Suc k"
    by (simp add: waitForBlack_returns del: waitForBlack.simps)
  from r show "fst (waitForBlack (Suc (k + extra)) e s w) = Finished" by (rule conjunct1)
  from r show "rgb_n (snd (waitForBlack (Suc (k + extra)) e s w)) (sensor_port s)
             = rgb_n w (sensor_port s) + Suc k" by (rule conjunct2)
next
  assume "\<forall>i<fuel. light_at e (sensor_port s) (rgb_n w (sensor_port s) + i) > black s"
  then show "fst (waitForBlack fuel e s w) = StillRunning"
    by (simp add: waitForBlack_blocks)
next
  fix n
  assume "\<forall>i. light_at e (sensor_port s) (rgb_n w (sensor_port s) + i) > black s"
  then show "fst (waitForBlack n e s w) = StillRunning"
    by (simp add: waitForBlack_blocks)
qed

theorem wait_loops_return_at_first_match_witness:
  "fst (waitForWhite 3 (bench (\<lambda>k. 0) (\<lambda>k. 0) (\<lambda>k. 0) (\<lambda>k. if k < 2 then 50 else 100))
          (LightSensor_init Port_S3 10 105) world0) = Finished
   \<and> rgb_n (snd (waitForWhite 3 (bench (\<lambda>k. 0) (\<lambda>k. 0) (\<lambda>k. 0) (\<lambda>k. if k < 2 then 50 else 100))
          (LightSensor_init Port_S3 10 105) world0)) Port_S3 = 3
   \<and> fst (waitForWhite 2 (bench (\<lambda>k. 0) (\<lambda>k. 0) (\<lambda>k. 0) (\<lambda>k. if k < 2 then 50 else 100))
          (LightSensor_init Port_S3 10 105) world0) = StillRunning
   \<and> (\<forall>n. fst (waitForWhite n (bench (\<lambda>k. 0) (\<lambda>k. 0) (\<lambda>k. 0) (\<lambda>k. 50))
          (LightSensor_init Port_S3 10 105) world0) = StillRunning)
   \<and> fst (waitForBlack 3 (bench (\<lambda>k. 0) (\<lambda>k. 0) (\<lambda>k. 0) (\<lambda>k. if k < 2 then 50 else 20))
          (LightSensor_init Port_S3 10 105) world0) = Finished
   \<and> rgb_n (snd (waitForBlack 3 (bench (\<lambda>k. 0) (\<lambda>k. 0) (\<lambda>k. 0) (\<lambda>k. if k < 2 then 50 else 20))
          (LightSensor_init Port_S3 10 105) world0)) Port_S3 = 3
   \<and> fst (waitForBlack 2 (bench (\<lambda>k. 0) (\<lambda>k. 0) (\<lambda>k. 0) (\<lambda>k. if k < 2 then 50 else 20))
          (LightSensor_init Port_S3 10 105) world0) = StillRunning
   \<and> (\<forall>n. fst (waitForBlack n (bench (\<lambda>k. 0) (\<lambda>k. 0) (\<lambda>k. 0) (\<lambda>k. 50))
          (LightSensor_init Port_S3 10 105) world0) = StillRunning)"
proof -
  have th: "white (LightSensor_init Port_S3 10 105) = 86" "black (LightSensor_init Port_S3 10 105) = 33.75"
    by (simp_all add: LightSensor_init_def)
  show ?thesis
    using wait_loops_return_at_first_match [of 2 "bench (\<lambda>k. 0) (\<lambda>k. 0) (\<lambda>k. 0) (\<lambda>k. if k < 2 then 50 else 100)"
               "LightSensor_init Port_S3 10 105" world0 0 2]
          wait_loops_return_at_first_match [of 2 "bench (\<lambda>k. 0) (\<lambda>k. 0) (\<lambda>k. 0) (\<lambda>k. 50)"
               "LightSensor_init Port_S3 10 105" world0 0 2]
          wait_loops_return_at_first_match [of 2 "bench (\<lambda>k. 0) (\<lambda>k. 0) (\<lambda>k. 0) (\<lambda>k. if k < 2 then 50 else 20)"
               "LightSensor_init Port_S3 10 105" world0 0 2]
    by (simp add: th numeral_3_eq_3 del: waitForWhite.simps waitForBlack.simps)
qed


subsection \<open>Line following that starts on white\<close>

text \<open>
  Claim C10. When the first reading of the stop sensor (the sensor that is not
  followed) is white, the loop of \<open>lineFollow2Line\<close> finishes at its first check with
  \<open>lastError\<close> still 0 and without a pass of its body: one sensor read, no run
  command, and the only commands sent are the HOLD stops of the right and left motor.
\<close>

theorem lineFollow2Line_white_at_once:
  assumes "light_at e (sensor_port (if useRightSensor then leftSensor r else rightSensor r))
             (rgb_n w (sensor_port (if useRightSensor then leftSensor r else rightSensor r)))
           \<ge> white (if useRightSensor then leftSensor r else rightSensor r)"
  shows "lineFollow2Line_loop (Suc fuel) e r
           (if useRightSensor then rightSensor r else leftSensor r)
           (if useRightSensor then leftSensor r else rightSensor r)
           (kSide_of rightSide) speed 0 w
         = (Finished, 0, snd (light e (if useRightSensor then leftSensor r else rightSensor r) w))
       \<and> lineFollow2Line (Suc fuel) e r speed rightSide useRightSensor w
         = (Finished, stop r HOLD (snd (light e (if useRightSensor then leftSensor r else rightSensor r) w)))
       \<and> cmd_log (snd (lineFollow2Line (Suc fuel) e r speed rightSide useRightSensor w))
         = cmd_log w @ [StopCmd (rightMotor r) HOLD, StopCmd (leftMotor r) HOLD]
       \<and> filter is_run (cmd_log (snd (lineFollow2Line (Suc fuel) e r speed rightSide useRightSensor w)))
         = filter is_run (cmd_log w)"
  using assms by (cases useRightSensor) (simp_all add: lineFollow2Line_def case_prod_beta)

theorem lineFollow2Line_white_at_once_witness:
  "cmd_log (snd (lineFollow2Line (Suc 0) (bench (\<lambda>k. 0) (\<lambda>k. 0) (\<lambda>k. 0) (\<lambda>k. 100))
       (fst (Robot_init (bench (\<lambda>k. 0) (\<lambda>k. 0) (\<lambda>k. 0) (\<lambda>k. 100)) world0)) 150 True True world0))
   = [StopCmd Port_B HOLD, StopCmd Port_C HOLD]"
  using lineFollow2Line_white_at_once [where e = "bench (\<lambda>k. 0) (\<lambda>k. 0) (\<lambda>k. 0) (\<lambda>k. 100)" and useRightSensor = True
      and r = "fst (Robot_init (bench (\<lambda>k. 0) (\<lambda>k. 0) (\<lambda>k. 0) (\<lambda>k. 100)) world0)"
      and w = world0 and fuel = 0 and rightSide = True and speed = 150]
  by (simp add: LightSensor_init_def del: lineFollow2Line_loop.simps)

subsection \<open>Turning to an angle\<close>

text \<open>
  Claim C6. The loop of \<open>turn\<close> ends exactly at the first check of its condition at
  which the heading error (gyro reading minus target) is 0 or the clock has reached
  \<open>time * 1000\<close> milliseconds: if that is check \<open>n\<close>, counted from 0, the call
  finishes after \<open>n\<close> passes of the body, and as long as neither holds the call is still
  running. In particular, on a gyro that shows \<open>10 i\<close> degrees during tick \<open>i\<close> and a
  clock that stays under 5000 ms for the first ten checks, \<open>turn(90, 300, 5)\<close> ends at
  tick 9 (its tenth check, after nine passes of the body) with heading error 0.
\<close>

theorem turn_ends_on_zero_error_or_timeout:
  "((\<forall>i<n. gyro_readings e (gyro_n w + 2 * i) \<noteq> angle
             \<and> clock_readings e (clock_n w + i) < time * 1000)
      \<and> (gyro_readings e (gyro_n w + 2 * n) - angle = 0
           \<or> clock_readings e (clock_n w + n) \<ge> time * 1000)
     \<longrightarrow> fst (turn (Suc (n + extra)) e r angle speed time w) = Finished
         \<and> clock_n (snd (turn (Suc (n + extra)) e r angle speed time w)) = clock_n w + n + 1
         \<and> gyro_n (snd (turn (Suc (n + extra)) e r angle speed time w)) = gyro_n w + 2 * n + 2
         \<and> length (cmd_log (snd (turn (Suc (n + extra)) e r angle speed time w)))
             = length (cmd_log w) + 2 * n + 2)
   \<and> ((\<forall>i<fuel. gyro_readings e (gyro_n w + 2 * i) \<noteq> angle
                \<and> clock_readings e (clock_n w + i) < time * 1000)
     \<longrightarrow> fst (turn fuel e r angle speed time w) = StillRunning)
   \<and> (gyro_readings e = (\<lambda>k. 10 * real (k div 2)) \<and> gyro_n w = 0 \<and> clock_n w = 0
        \<and> (\<forall>i<10. clock_readings e i < 5000)
     \<longrightarrow> fst (turn (Suc (9 + extra)) e r 90 300 5 w) = Finished
         \<and> clock_n (snd (turn (Suc (9 + extra)) e r 90 300 5 w)) = 10
         \<and> gyro_n (snd (turn (Suc (9 + extra)) e r 90 300 5 w)) = 20
         \<and> length (cmd_log (snd (turn (Suc (9 + extra)) e r 90 300 5 w))) = length (cmd_log w) + 20
         \<and> gyro_readings e 18 - 90 = 0 \<and> gyro_readings e 19 - 90 = 0)"
proof (intro conjI)
  show "(\<forall>i<n. gyro_readings e (gyro_n w + 2 * i) \<noteq> angle
             \<and> clock_readings e (clock_n w + i) < time * 1000)
      \<and> (gyro_readings e (gyro_n w + 2 * n) - angle = 0
           \<or> clock_readings e (clock_n w + n) \<ge> time * 1000)
     \<longrightarrow> fst (turn (Suc (n + extra)) e r angle speed time w) = Finished
         \<and> clock_n (snd (turn (Suc (n + extra)) e r angle speed time w)) = clock_n w + n + 1
         \<and> gyro_n (snd (turn (Suc (n + extra)) e r angle speed time w)) = gyro_n w + 2 * n + 2
         \<and> length (cmd_log (snd (turn (Suc (n + extra)) e r angle speed time w)))
             = length (cmd_log w) + 2 * n + 2"
  proof
    assume h: "(\<forall>i<n. gyro_readings e (gyro_n w + 2 * i) \<noteq> angle
             \<and> clock_readings e (clock_n w + i) < time * 1000)
      \<and> (gyro_readings e (gyro_n w + 2 * n) - angle = 0
           \<or> clock_readings e (clock_n w + n) \<ge> time * 1000)"
    then have a: "\<forall>i<n. gyro_readings e (gyro_n w + 2 * i) \<noteq> angle
             \<and> clock_readings e (clock_n w + i) < time * 1000" by (rule conjunct1)
    from h have b: "gyro_readings e (gyro_n w + 2 * n) = angle
           \<or> clock_readings e (clock_n w + n) \<ge> time * 1000" by auto
    from turn_exits [OF a b, of extra r speed]
    show "fst (turn (Suc (n + extra)) e r angle speed time w) = Finished
         \<and> clock_n (snd (turn (Suc (n + extra)) e r angle speed time w)) = clock_n w + n + 1
         \<and> gyro_n (snd (turn (Suc (n + extra)) e r angle speed time w)) = gyro_n w + 2 * n + 2
         \<and> length (cmd_log (snd (turn (Suc (n + extra)) e r angle speed time w)))
             = length (cmd_log w) + 2 * n + 2" by blast
  qed
next
  show "(\<forall>i<fuel. gyro_readings e (gyro_n w + 2 * i) \<noteq> angle
                \<and> clock_readings e (clock_n w + i) < time * 1000)
     \<longrightarrow> fst (turn fuel e r angle speed time w) = StillRunning"
  proof
    assume "\<forall>i<fuel. gyro_readings e (gyro_n w + 2 * i) \<noteq> angle
                \<and> clock_readings e (clock_n w + i) < time * 1000"
    then have "fst (turn_loop fuel e r angle speed time w) = StillRunning"
      by (rule turn_loop_continues)
    then show "fst (turn fuel e r angle speed time w) = StillRunning"
      by (rule turn_still_running)
  qed
next
  show "gyro_readings e = (\<lambda>k. 10 * real (k div 2)) \<and> gyro_n w = 0 \<and> clock_n w = 0
        \<and> (\<forall>i<10. clock_readings e i < 5000)
     \<longrightarrow> fst (turn (Suc (9 + extra)) e r 90 300 5 w) = Finished
         \<and> clock_n (snd (turn (Suc (9 + extra)) e r 90 300 5 w)) = 10
         \<and> gyro_n (snd (turn (Suc (9 + extra)) e r 90 300 5 w)) = 20
         \<and> length (cmd_log (snd (turn (Suc (9 + extra)) e r 90 300 5 w))) = length (cmd_log w) + 20
         \<and> gyro_readings e 18 - 90 = 0 \<and> gyro_readings e 19 - 90 = 0"
  proof
    assume h: "gyro_readings e = (\<lambda>k. 10 * real (k div 2)) \<and> gyro_n w = 0 \<and> clock_n w = 0
        \<and> (\<forall>i<10. clock_readings e i < 5000)"
    then have g: "gyro_readings e = (\<lambda>k. 10 * real (k div 2))"
      and w: "gyro_n w = 0" "clock_n w = 0" and c: "\<forall>i<10. clock_readings e i < 5000"
      by blast+
    from g w c show "fst (turn (Suc (9 + extra)) e r 90 300 5 w) = Finished
         \<and> clock_n (snd (turn (Suc (9 + extra)) e r 90 300 5 w)) = 10
         \<and> gyro_n (snd (turn (Suc (9 + extra)) e r 90 300 5 w)) = 20
         \<and> length (cmd_log (snd (turn (Suc (9 + extra)) e r 90 300 5 w))) = length (cmd_log w) + 20
         \<and> gyro_readings e 18 - 90 = 0 \<and> gyro_readings e 19 - 90 = 0"
      by (rule turn_simulated)
  qed
qed

theorem turn_ends_on_zero_error_or_timeout_witness:
  "fst (turn (Suc (9 + 0)) (bench (\<lambda>k. 10 * real (k div 2)) (\<lambda>k. 20 * real k) (\<lambda>k. 0) (\<lambda>k. 0))
        (fst (Robot_init (bench (\<lambda>k. 0) (\<lambda>k. 0) (\<lambda>k. 0) (\<lambda>k. 0)) world0)) 90 300 5 world0) = Finished
   \<and> clock_n (snd (turn (Suc (9 + 0)) (bench (\<lambda>k. 10 * real (k div 2)) (\<lambda>k. 20 * real k) (\<lambda>k. 0) (\<lambda>k. 0))
        (fst (Robot_init (bench (\<lambda>k. 0) (\<lambda>k. 0) (\<lambda>k. 0) (\<lambda>k. 0)) world0)) 90 300 5 world0)) = 10
   \<and> fst (turn 9 (bench (\<lambda>k. 10 * real (k div 2)) (\<lambda>k. 20 * real k) (\<lambda>k. 0) (\<lambda>k. 0))
        (fst (Robot_init (bench (\<lambda>k. 0) (\<lambda>k. 0) (\<lambda>k. 0) (\<lambda>k. 0)) world0)) 90 300 5 world0) = StillRunning
   \<and> fst (turn (Suc (5 + 0)) (bench (\<lambda>k. 0) (\<lambda>k. 1000 * real k) (\<lambda>k. 0) (\<lambda>k. 0))
        (fst (Robot_init (bench (\<lambda>k. 0) (\<lambda>k. 0) (\<lambda>k. 0) (\<lambda>k. 0)) world0)) 90 300 5 world0) = Finished
   \<and> clock_n (snd (turn (Suc (5 + 0)) (bench (\<lambda>k. 0) (\<lambda>k. 1000 * real k) (\<lambda>k. 0) (\<lambda>k. 0))
        (fst (Robot_init (bench (\<lambda>k. 0) (\<lambda>k. 0) (\<lambda>k. 0) (\<lambda>k. 0)) world0)) 90 300 5 world0)) = 6"
proof -
  have a: "\<forall>i<9. 10 * real i \<noteq> 90" by simp
  have b: "\<forall>i<10. 20 * real i < 5000" by simp
  have c: "\<forall>i<5. 1000 * real i < 5000" by simp
  show ?thesis
    using a b c
      turn_ends_on_zero_error_or_timeout [where e = "bench (\<lambda>k. 10 * real (k div 2)) (\<lambda>k. 20 * real k) (\<lambda>k. 0) (\<lambda>k. 0)"
          and w = world0 and extra = 0 and fuel = 9 and angle = 90 and time = 5 and n = 9
          and speed = 300 and r = "fst (Robot_init (bench (\<lambda>k. 0) (\<lambda>k. 0) (\<lambda>k. 0) (\<lambda>k. 0)) world0)"]
      turn_ends_on_zero_error_or_timeout [where e = "bench (\<lambda>k. 0) (\<lambda>k. 1000 * real k) (\<lambda>k. 0) (\<lambda>k. 0)"
          and w = world0 and extra = 0 and fuel = 0 and angle = 90 and time = 5 and n = 5
          and speed = 300 and r = "fst (Robot_init (bench (\<lambda>k. 0) (\<lambda>k. 0) (\<lambda>k. 0) (\<lambda>k. 0)) world0)"]
    by (simp del: Robot_init_world0)
qed

subsection \<open>The front and rear motors\<close>

text \<open>
  Claim C9. For the robot that \<open>Robot.__init__\<close> builds (front motor on port D, rear on
  A, left on C, right on B), each of \<open>calibrate\<close>, \<open>moveSteering\<close>, \<open>drive\<close>,
  \<open>turn\<close>, \<open>lineFollow2Line\<close>, \<open>lineFollow4Time\<close>, \<open>turn2Line\<close>, \<open>drive2Line\<close>
  and \<open>stop\<close> sends commands to the left and right motor only, at any point of its
  run: the commands received by the front and by the rear motor are the same after the
  call as before it.
\<close>

theorem motion_commands_only_drive_motors:
  assumes "r = fst (Robot_init e0 w0)"
  shows "only_drive_motors r w (snd (calibrate fuel e r w))
   \<and> front_rear_untouched r w (snd (calibrate fuel e r w))
   \<and> only_drive_motors r w (moveSteering r steering speed w)
   \<and> front_rear_untouched r w (moveSteering r steering speed w)
   \<and> only_drive_motors r w (snd (drive fuel e r distance speed time kSteering w))
   \<and> front_rear_untouched r w (snd (drive fuel e r distance speed time kSteering w))
   \<and> only_drive_motors r w (snd (turn fuel e r angle speed time w))
   \<and> front_rear_untouched r w (snd (turn fuel e r angle speed time w))
   \<and> only_drive_motors r w (snd (lineFollow2Line fuel e r speed rightSide useRightSensor w))
   \<and> front_rear_untouched r w (snd (lineFollow2Line fuel e r speed rightSide useRightSensor w))
   \<and> only_drive_motors r w (snd (lineFollow4Time fuel e r speed time rightSide useRightSensor w))
   \<and> front_rear_untouched r w (snd (lineFollow4Time fuel e r speed time rightSide useRightSensor w))
   \<and> only_drive_motors r w (snd (turn2Line fuel e r speed useRightSensor time w))
   \<and> front_rear_untouched r w (snd (turn2Line fuel e r speed useRightSensor time w))
   \<and> only_drive_motors r w (snd (drive2Line fuel e r speed distanceBefore distanceAfter useRightSensor w))
   \<and> front_rear_untouched r w (snd (drive2Line fuel e r speed distanceBefore distanceAfter useRightSensor w))
   \<and> only_drive_motors r w (stop r brakeType w)
   \<and> front_rear_untouched r w (stop r brakeType w)"
proof -
  have d: "frontMotor r \<noteq> leftMotor r" "frontMotor r \<noteq> rightMotor r"
          "rearMotor r \<noteq> leftMotor r" "rearMotor r \<noteq> rightMotor r"
    by (simp_all add: assms)
  have o_calibrate: "only_drive_motors r w (snd (calibrate fuel e r w))"
    by (simp add: odm_calibrate)
  have o_moveSteering: "only_drive_motors r w (moveSteering r steering speed w)"
    by simp
  have o_drive: "only_drive_motors r w (snd (drive fuel e r distance speed time kSteering w))"
    by (simp add: odm_drive)
  have o_turn: "only_drive_motors r w (snd (turn fuel e r angle speed time w))"
    by (simp add: odm_turn)
  have o_lineFollow2Line: "only_drive_motors r w (snd (lineFollow2Line fuel e r speed rightSide useRightSensor w))"
    by (simp add: odm_lineFollow2Line)
  have o_lineFollow4Time: "only_drive_motors r w (snd (lineFollow4Time fuel e r speed time rightSide useRightSensor w))"
    by (simp add: odm_lineFollow4Time)
  have o_turn2Line: "only_drive_motors r w (snd (turn2Line fuel e r speed useRightSensor time w))"
    by (simp add: odm_turn2Line)
  have o_drive2Line: "only_drive_motors r w (snd (drive2Line fuel e r speed distanceBefore distanceAfter useRightSensor w))"
    by (simp add: odm_drive2Line)
  have o_stop: "only_drive_motors r w (stop r brakeType w)"
    by simp
  show ?thesis
    by (intro conjI odm_untouched d o_calibrate o_moveSteering o_drive o_turn o_lineFollow2Line o_lineFollow4Time o_turn2Line o_drive2Line o_stop)
qed

theorem motion_commands_only_drive_motors_witness:
  "front_rear_untouched (fst (Robot_init (bench (\<lambda>k. 0) (\<lambda>k. 0) (\<lambda>k. 0) (\<lambda>k. 0)) world0)) world0
     (snd (drive 3 (bench (\<lambda>k. 0) (\<lambda>k. 1000 * real k) (\<lambda>k. 0) (\<lambda>k. 0))
        (fst (Robot_init (bench (\<lambda>k. 0) (\<lambda>k. 0) (\<lambda>k. 0) (\<lambda>k. 0)) world0)) 10 200 20 1 world0))
   \<and> only_drive_motors (fst (Robot_init (bench (\<lambda>k. 0) (\<lambda>k. 0) (\<lambda>k. 0) (\<lambda>k. 0)) world0)) world0
     (stop (fst (Robot_init (bench (\<lambda>k. 0) (\<lambda>k. 0) (\<lambda>k. 0) (\<lambda>k. 0)) world0)) BRAKE world0)
   \<and> cmds_of Port_D (cmd_log (moveSteering
        (fst (Robot_init (bench (\<lambda>k. 0) (\<lambda>k. 0) (\<lambda>k. 0) (\<lambda>k. 0)) world0)) 50 200 world0)) = []
   \<and> cmds_of Port_A (cmd_log (moveSteering
        (fst (Robot_init (bench (\<lambda>k. 0) (\<lambda>k. 0) (\<lambda>k. 0) (\<lambda>k. 0)) world0)) 50 200 world0)) = []"
  using motion_commands_only_drive_motors [where r = "fst (Robot_init (bench (\<lambda>k. 0) (\<lambda>k. 0) (\<lambda>k. 0) (\<lambda>k. 0)) world0)"
      and ?e0.0 = "bench (\<lambda>k. 0) (\<lambda>k. 0) (\<lambda>k. 0) (\<lambda>k. 0)" and ?w0.0 = world0 and w = world0
      and e = "bench (\<lambda>k. 0) (\<lambda>k. 1000 * real k) (\<lambda>k. 0) (\<lambda>k. 0)"
      and steering = 50 and fuel = 3 and distance = 10 and speed = 200 and time = 20 and kSteering = 1
      and brakeType = BRAKE]
  by (simp add: cmds_of_def)

subsection \<open>Calibration\<close>

text \<open>
  Claim C5 says that \<open>calibrate\<close> keeps the running minimum and maximum of the
  readings, so that readings oscillating between 30 and 90 always persist low 30 and
  high 90. The source's own comment says the same ("sets high and low values to highest
  and lowest values seen"), but the code polls the sensor anew for every test and every
  store. Run for five passes (clock 0, 1000, ... ms) on sensors whose successive
  \<open>light()\<close> calls return 90, 30, 90, 30, ..., it persists high 30 and low 70; on
  30, 90, 30, 90, ... it persists the seeds, high 40 and low 70.
\<close>

theorem calibrate_rereads_sensor:
  "fst (calibrate 6 (bench (\<lambda>k. 0) (\<lambda>k. 1000 * real k) (\<lambda>k. 0) (\<lambda>k. if even k then 90 else 30))
        (fst (Robot_init (bench (\<lambda>k. 0) (\<lambda>k. 0) (\<lambda>k. 0) (\<lambda>k. 0)) world0)) world0) = Finished
   \<and> sensorpoints_file (snd (calibrate 6
        (bench (\<lambda>k. 0) (\<lambda>k. 1000 * real k) (\<lambda>k. 0) (\<lambda>k. if even k then 90 else 30))
        (fst (Robot_init (bench (\<lambda>k. 0) (\<lambda>k. 0) (\<lambda>k. 0) (\<lambda>k. 0)) world0)) world0))
     = Some \<lparr>leftLow = 70, rightLow = 70, leftHigh = 30, rightHigh = 30\<rparr>
   \<and> fst (calibrate 6 (bench (\<lambda>k. 0) (\<lambda>k. 1000 * real k) (\<lambda>k. 0) (\<lambda>k. if even k then 30 else 90))
        (fst (Robot_init (bench (\<lambda>k. 0) (\<lambda>k. 0) (\<lambda>k. 0) (\<lambda>k. 0)) world0)) world0) = Finished
   \<and> sensorpoints_file (snd (calibrate 6
        (bench (\<lambda>k. 0) (\<lambda>k. 1000 * real k) (\<lambda>k. 0) (\<lambda>k. if even k then 30 else 90))
        (fst (Robot_init (bench (\<lambda>k. 0) (\<lambda>k. 0) (\<lambda>k. 0) (\<lambda>k. 0)) world0)) world0))
     = Some \<lparr>leftLow = 70, rightLow = 70, leftHigh = 40, rightHigh = 40\<rparr>"
proof -
  let ?r = "fst (Robot_init (bench (\<lambda>k. 0) (\<lambda>k. 0) (\<lambda>k. 0) (\<lambda>k. 0)) world0)"
  let ?e1 = "bench (\<lambda>k. 0) (\<lambda>k. 1000 * real k) (\<lambda>k. 0) (\<lambda>k. if even k then 90 else 30)"
  let ?e2 = "bench (\<lambda>k. 0) (\<lambda>k. 1000 * real k) (\<lambda>k. 0) (\<lambda>k. if even k then 30 else 90)"
  let ?sp = "\<lparr>leftLow = 70, rightLow = 70, leftHigh = 40, rightHigh = 40\<rparr>"
  let ?w = "moveSteering ?r 0 125 world0"
  have six: "(6::nat) = Suc (5 + 0)" by simp
  have f1: "fst (calibrate_loop 6 ?e1 ?r ?sp ?w) = Finished"
    unfolding six by (rule calibrate_loop_finishes) simp
  have f2: "fst (calibrate_loop 6 ?e2 ?r ?sp ?w) = Finished"
    unfolding six by (rule calibrate_loop_finishes) simp
  have v1: "fst (snd (calibrate_loop 6 ?e1 ?r ?sp ?w))
            = \<lparr>leftLow = 70, rightLow = 70, leftHigh = 30, rightHigh = 30\<rparr>"
    unfolding six by (rule loop_stores_later_reading) simp_all
  have v2: "fst (snd (calibrate_loop 6 ?e2 ?r ?sp ?w)) = ?sp"
    by (rule loop_in_phase) simp_all
  from calibrate_persists [OF f1] calibrate_persists [OF f2] show ?thesis
    by (simp only: v1 v2)
qed

end
